theory Spec2Isabelle
  imports Complex_Main "HOL-Library.Product_Lexorder"
begin

section \<open>Values\<close>

text \<open>
  The dashboard (\<^verbatim>\<open>app.py\<close>) computes on pandas columns of 64-bit floats. The
  columns read from the CSV are taken to hold finite numbers (the data model of the
  specification: signed reals), modelled as \<^typ>\<open>real\<close> with exact arithmetic:
  rounding, overflow and the sign of zero are not modelled. A computed cell can also be
  one of the three special floats, so a computed column holds values of type \<open>cell\<close>.
  \<open>NaN\<close> is pandas' missing value (what the specification calls undefined or null).
\<close>

datatype cell = Num real | PInf | NInf | NaN

text \<open>
  Division of two float columns, cell by cell. numpy raises nothing on a zero divisor:
  \<open>x / 0\<close> is an infinity with the sign of \<open>x\<close>, and \<open>0 / 0\<close> is NaN.
\<close>

fun fdiv :: "cell \<Rightarrow> cell \<Rightarrow> cell" where
  "fdiv NaN _ = NaN"
| "fdiv _ NaN = NaN"
| "fdiv (Num a) (Num b) =
     (if b \<noteq> 0 then Num (a / b)
      else if 0 < a then PInf else if a < 0 then NInf else NaN)"
| "fdiv (Num a) PInf = Num 0"
| "fdiv (Num a) NInf = Num 0"
| "fdiv PInf (Num b) = (if 0 \<le> b then PInf else NInf)"
| "fdiv NInf (Num b) = (if 0 \<le> b then NInf else PInf)"
| "fdiv PInf PInf = NaN"
| "fdiv PInf NInf = NaN"
| "fdiv NInf PInf = NaN"
| "fdiv NInf NInf = NaN"

fun fadd :: "cell \<Rightarrow> cell \<Rightarrow> cell" where
  "fadd NaN _ = NaN"
| "fadd _ NaN = NaN"
| "fadd (Num a) (Num b) = Num (a + b)"
| "fadd (Num a) PInf = PInf"
| "fadd (Num a) NInf = NInf"
| "fadd PInf (Num b) = PInf"
| "fadd NInf (Num b) = NInf"
| "fadd PInf PInf = PInf"
| "fadd NInf NInf = NInf"
| "fadd PInf NInf = NaN"
| "fadd NInf PInf = NaN"

fun fneg :: "cell \<Rightarrow> cell" where
  "fneg (Num a) = Num (- a)"
| "fneg PInf = NInf"
| "fneg NInf = PInf"
| "fneg NaN = NaN"

definition fsub :: "cell \<Rightarrow> cell \<Rightarrow> cell" where
  "fsub a b = fadd a (fneg b)"

text \<open>\<^verbatim>\<open>Series.sum()\<close> and \<^verbatim>\<open>Series.mean()\<close> of a column of finite numbers. The
  mean of an empty column is NaN (pandas raises nothing). Both are exact here, where
  pandas rounds every float addition: the model says which quantity a cell holds, and
  supports no statement that turns on a rounding step, such as the order of two cells
  whose exact values are equal or one float apart.\<close>

definition series_sum :: "real list \<Rightarrow> cell" where
  "series_sum xs = Num (sum_list xs)"

definition series_mean :: "real list \<Rightarrow> cell" where
  "series_mean xs = (if xs = [] then NaN else Num (sum_list xs / real (length xs)))"

text \<open>\<^verbatim>\<open>Series.mean()\<close> of a computed column: missing cells are skipped
  (\<^verbatim>\<open>skipna=True\<close>), and the mean of what is left is NaN when nothing is left.\<close>

definition nanmean :: "cell list \<Rightarrow> cell" where
  "nanmean cs =
     (let xs = filter (\<lambda>c. c \<noteq> NaN) cs
      in if xs = [] then NaN else fdiv (foldl fadd (Num 0) xs) (Num (real (length xs))))"

section \<open>Records, frames and the object store\<close>

type_synonym date = "int \<times> int \<times> int"

record timestamp =
  ts_year :: int
  ts_month :: int
  ts_day :: int
  ts_hour :: int

text \<open>A row of the CSV as \<^verbatim>\<open>pd.read_csv\<close> and \<^verbatim>\<open>pd.to_datetime\<close> deliver it.\<close>

record csv_row =
  datetime_utc :: timestamp
  csv_residual_load_mw_avg :: real
  csv_day_ahead_price_eur_mwh :: real
  csv_solar_mw_avg :: real

text \<open>A row of the loaded frame: the CSV columns and the three derived ones.\<close>

record hourly =
  datetime :: timestamp
  year :: int
  month :: int
  date :: date
  residual_load_mw_avg :: real
  day_ahead_price_eur_mwh :: real
  solar_mw_avg :: real

text \<open>
  A DataFrame: its rows, and the column \<^verbatim>\<open>solar_revenue\<close>, which the loaded frame
  does not have (\<open>None\<close>) and which \<^verbatim>\<open>df['solar_revenue'] = ...\<close> adds to a frame.
\<close>

record frame =
  rows :: "hourly list"
  solar_revenue :: "real list option"

text \<open>
  DataFrames are objects: a variable holds a reference, and an assignment to a column
  changes the object for everyone who holds it. The store maps references to frames;
  \<open>fresh\<close> is the next unused reference, so the allocated ones are those below it.
\<close>

type_synonym ref = nat

record heap =
  objs :: "ref \<Rightarrow> frame"
  fresh :: ref

definition alloc :: "heap \<Rightarrow> frame \<Rightarrow> ref \<times> heap" where
  "alloc h f = (fresh h, h\<lparr>objs := (objs h)(fresh h := f), fresh := Suc (fresh h)\<rparr>)"

text \<open>\<^verbatim>\<open>df.copy()\<close>: a new object with the same content.\<close>

definition df_copy :: "heap \<Rightarrow> ref \<Rightarrow> ref \<times> heap" where
  "df_copy h p = alloc h (objs h p)"

text \<open>\<^verbatim>\<open>df['solar_revenue'] = col\<close>: changes the object \<open>p\<close> refers to.\<close>

definition set_solar_revenue :: "heap \<Rightarrow> ref \<Rightarrow> real list \<Rightarrow> heap" where
  "set_solar_revenue h p col = h\<lparr>objs := (objs h)(p := (objs h p)\<lparr>solar_revenue := Some col\<rparr>)\<rparr>"

datatype py_error = ParserError | TypeError

section \<open>Grouping and merging\<close>

text \<open>
  \<^verbatim>\<open>groupby(keys)\<close>: one group per distinct key, the groups in ascending key order
  (\<^verbatim>\<open>sort=True\<close>), the rows of a group in their order in the frame.
\<close>

definition group_keys :: "('r \<Rightarrow> 'k::linorder) \<Rightarrow> 'r list \<Rightarrow> 'k list" where
  "group_keys key rs = sort (remdups (map key rs))"

definition groupby :: "('r \<Rightarrow> 'k::linorder) \<Rightarrow> 'r list \<Rightarrow> ('k \<times> 'r list) list" where
  "groupby key rs = map (\<lambda>k. (k, filter (\<lambda>r. key r = k) rs)) (group_keys key rs)"

text \<open>\<^verbatim>\<open>pd.merge(left, right, on=keys)\<close>, inner: the left rows in order, each with
  every right row of its key.\<close>

definition merge_inner :: "('k \<times> 'a) list \<Rightarrow> ('k \<times> 'b) list \<Rightarrow> ('k \<times> 'a \<times> 'b) list" where
  "merge_inner left right =
     concat (map (\<lambda>(k, a). map (\<lambda>(k', b). (k, a, b)) (filter (\<lambda>(k', b). k' = k) right)) left)"

text \<open>\<^verbatim>\<open>how='left'\<close>: a left row with no right row of its key is kept, its right
  columns missing.\<close>

definition merge_left :: "('k \<times> 'a) list \<Rightarrow> ('k \<times> 'b) list \<Rightarrow> ('k \<times> 'a \<times> 'b option) list" where
  "merge_left left right =
     concat (map (\<lambda>(k, a).
        (case filter (\<lambda>(k', b). k' = k) right of
           [] \<Rightarrow> [(k, a, None)]
         | ms \<Rightarrow> map (\<lambda>(k', b). (k, a, Some b)) ms)) left)"

section \<open>The loader\<close>

definition INPUT_FILE :: string where
  "INPUT_FILE = ''hourly_german_residual_load_and_prices_2024_present.csv''"

text \<open>
  The file system maps a path to what is stored there. Parsing is pandas' work: the
  model starts from its result, the rows of a file that parses, and \<open>Malformed\<close>
  for a file on which \<^verbatim>\<open>read_csv\<close> or \<^verbatim>\<open>to_datetime\<close> raises.
\<close>

datatype csv_file = Csv "csv_row list" | Malformed

definition derive :: "csv_row \<Rightarrow> hourly" where
  "derive c =
     \<lparr>datetime = datetime_utc c,
      year = ts_year (datetime_utc c),
      month = ts_month (datetime_utc c),
      date = (ts_year (datetime_utc c), ts_month (datetime_utc c), ts_day (datetime_utc c)),
      residual_load_mw_avg = csv_residual_load_mw_avg c,
      day_ahead_price_eur_mwh = csv_day_ahead_price_eur_mwh c,
      solar_mw_avg = csv_solar_mw_avg c\<rparr>"

text \<open>The body of \<^verbatim>\<open>load_data\<close>, lines 16 to 23.\<close>

definition load_data_body :: "(string \<rightharpoonup> csv_file) \<Rightarrow> heap \<Rightarrow> py_error + (ref option \<times> heap)" where
  "load_data_body fs h =
     (case fs INPUT_FILE of
        None \<Rightarrow> Inr (None, h)
      | Some Malformed \<Rightarrow> Inl ParserError
      | Some (Csv raw) \<Rightarrow>
          (let (df, h') = alloc h \<lparr>rows = map derive raw, solar_revenue = None\<rparr>
           in Inr (Some df, h')))"

text \<open>
  \<^verbatim>\<open>load_data\<close> is decorated with \<^verbatim>\<open>st.cache_data\<close> (line 14) and takes no
  argument: the first call that returns stores what it returns, and every later call of
  the process returns the stored value without running the body, a frame as a copy (a new
  object with the stored content). A call that raises stores nothing. The memo holds
  nothing yet (\<open>None\<close>), the absent signal (\<open>Some None\<close>) or the content of a
  frame.
\<close>

type_synonym memo = "frame option option"

definition load_data ::
  "(string \<rightharpoonup> csv_file) \<Rightarrow> memo \<Rightarrow> heap \<Rightarrow> py_error + (ref option \<times> memo \<times> heap)" where
  "load_data fs c h =
     (case c of
        Some None \<Rightarrow> Inr (None, c, h)
      | Some (Some f) \<Rightarrow> (let (df, h') = alloc h f in Inr (Some df, c, h'))
      | None \<Rightarrow>
          (case load_data_body fs h of
             Inl e \<Rightarrow> Inl e
           | Inr (None, h') \<Rightarrow> Inr (None, Some None, h')
           | Inr (Some df, h') \<Rightarrow> Inr (Some df, Some (Some (objs h' df)), h')))"

section \<open>Monthly statistics\<close>

definition daily_spread :: "hourly list \<Rightarrow> cell option" where
  "daily_spread g =
     (let sorted_prices = sort (map day_ahead_price_eur_mwh g)
      in if length sorted_prices < 8 then None
         else Some (fsub (series_mean (drop (length sorted_prices - 4) sorted_prices))
                         (series_mean (take 4 sorted_prices))))"

definition monthly_agg :: "hourly list \<Rightarrow> cell \<times> nat \<times> cell \<times> cell" where
  "monthly_agg g =
     (let avg_price = series_mean (map day_ahead_price_eur_mwh g);
          neg_hours = length (filter (\<lambda>r. day_ahead_price_eur_mwh r < 0) g);
          res_neg_price = series_mean (map day_ahead_price_eur_mwh
                            (filter (\<lambda>r. residual_load_mw_avg r < 0) g));
          res_high_price = series_mean (map day_ahead_price_eur_mwh
                            (filter (\<lambda>r. residual_load_mw_avg r > 60000) g))
      in (avg_price, neg_hours, res_neg_price, res_high_price))"

record stats_row =
  s_year :: int
  s_month :: int
  avg_price :: cell
  neg_hours :: nat
  avg_price_res_neg :: cell
  avg_price_res_high :: cell
  avg_spread :: cell

text \<open>
  Line 34. \<^verbatim>\<open>groupby(...).apply(f)\<close> collects one result per day. When every result
  is \<^verbatim>\<open>None\<close> (also when the frame has no rows) pandas returns a DataFrame, not a
  Series, and \<^verbatim>\<open>reset_index(name='spread')\<close> raises TypeError: a DataFrame's
  \<^verbatim>\<open>reset_index\<close> has no parameter \<^verbatim>\<open>name\<close>. Otherwise the results make a float
  Series, in which \<^verbatim>\<open>None\<close> is NaN.
\<close>

definition apply_daily_spread :: "hourly list \<Rightarrow> ((int \<times> int \<times> date) \<times> cell option) list" where
  "apply_daily_spread rs =
     map (\<lambda>(k, g). (k, daily_spread g)) (groupby (\<lambda>r. (year r, month r, date r)) rs)"

definition daily_spreads :: "hourly list \<Rightarrow> py_error + ((int \<times> int \<times> date) \<times> cell) list" where
  "daily_spreads rs =
     (let applied = apply_daily_spread rs
      in if list_all (\<lambda>(k, v). v = None) applied then Inl TypeError
         else Inr (map (\<lambda>(k, v). (k, case v of None \<Rightarrow> NaN | Some c \<Rightarrow> c)) applied))"

definition calculate_monthly_stats :: "heap \<Rightarrow> ref \<Rightarrow> (py_error + stats_row list) \<times> heap" where
  "calculate_monthly_stats h df =
     (case daily_spreads (rows (objs h df)) of
        Inl e \<Rightarrow> (Inl e, h)
      | Inr spreads \<Rightarrow>
          (let monthly_spread =
                 map (\<lambda>(k, g). (k, nanmean (map snd g)))
                   (groupby (\<lambda>((y, m, d), v). (y, m)) spreads);
               monthly_stats =
                 map (\<lambda>(k, g). (k, monthly_agg g))
                   (groupby (\<lambda>r. (year r, month r)) (rows (objs h df)));
               merged =
                 map (\<lambda>((y, m), (a, n, rn, rh), sp).
                        \<lparr>s_year = y, s_month = m, avg_price = a, neg_hours = n,
                         avg_price_res_neg = rn, avg_price_res_high = rh, avg_spread = sp\<rparr>)
                   (merge_inner monthly_stats monthly_spread)
           in (Inr merged, h)))"

section \<open>Capture prices\<close>

record capture_row =
  c_year :: int
  c_month :: int
  c_solar_mw_avg :: cell
  c_solar_revenue :: cell
  c_day_ahead_price_eur_mwh :: cell
  solar_mw_pos :: cell
  solar_rev_pos :: cell
  pv_price :: cell
  pv_price_pos :: cell
  baseload_price :: cell
  capture_rate :: cell

text \<open>The rows of a frame with their cell of the column \<^verbatim>\<open>solar_revenue\<close>; a frame
  without the column has no such cells (the source reads the column only after setting
  it).\<close>

definition with_revenue :: "frame \<Rightarrow> (hourly \<times> real) list" where
  "with_revenue f = (case solar_revenue f of None \<Rightarrow> [] | Some col \<Rightarrow> zip (rows f) col)"

definition calculate_capture_prices :: "heap \<Rightarrow> ref \<Rightarrow> capture_row list \<times> heap" where
  "calculate_capture_prices h df0 =
     (let (df, h1) = df_copy h df0;
          h2 = set_solar_revenue h1 df
                 (map (\<lambda>r. solar_mw_avg r * day_ahead_price_eur_mwh r) (rows (objs h1 df)));
          t = with_revenue (objs h2 df);
          df_pos = filter (\<lambda>(r, v). day_ahead_price_eur_mwh r \<ge> 0) t;
          monthly_grouped =
            map (\<lambda>(k, g). (k, series_sum (map (solar_mw_avg \<circ> fst) g),
                               series_sum (map snd g),
                               series_mean (map (day_ahead_price_eur_mwh \<circ> fst) g)))
              (groupby (\<lambda>(r, v). (year r, month r)) t);
          monthly_pos =
            map (\<lambda>(k, g). (k, series_sum (map (solar_mw_avg \<circ> fst) g), series_sum (map snd g)))
              (groupby (\<lambda>(r, v). (year r, month r)) df_pos);
          merged =
            map (\<lambda>((y, m), (s, v, p), pos).
                   (let sp = (case pos of None \<Rightarrow> NaN | Some (a, b) \<Rightarrow> a);
                        vp = (case pos of None \<Rightarrow> NaN | Some (a, b) \<Rightarrow> b);
                        pv = fdiv v s
                    in \<lparr>c_year = y, c_month = m, c_solar_mw_avg = s, c_solar_revenue = v,
                        c_day_ahead_price_eur_mwh = p, solar_mw_pos = sp, solar_rev_pos = vp,
                        pv_price = pv, pv_price_pos = fdiv vp sp, baseload_price = p,
                        capture_rate = fdiv pv p\<rparr>))
              (merge_left monthly_grouped monthly_pos)
      in (merged, h2))"

section \<open>The page\<close>

record yearly_row =
  y_year :: int
  y_pv_price :: cell
  y_pv_price_pos :: cell
  y_baseload_price :: cell
  y_capture_rate :: cell

text \<open>A column of a table indexed by year, read at a year of another index: missing
  where the year is not in the column's own index.\<close>

definition at_year :: "(int \<times> cell) list \<Rightarrow> int \<Rightarrow> cell" where
  "at_year col y = (case map_of col y of None \<Rightarrow> NaN | Some c \<Rightarrow> c)"

text \<open>
  Lines 121 to 137 of \<^verbatim>\<open>main\<close>, the yearly overview. \<^verbatim>\<open>pd.DataFrame\<close> of
  columns with different indexes has the union of the indexes, sorted.
\<close>

definition yearly_overview :: "heap \<Rightarrow> ref \<Rightarrow> yearly_row list \<times> heap" where
  "yearly_overview h df =
     (let (yearly_df, h1) = df_copy h df;
          h2 = set_solar_revenue h1 yearly_df
                 (map (\<lambda>r. solar_mw_avg r * day_ahead_price_eur_mwh r) (rows (objs h1 yearly_df)));
          t = with_revenue (objs h2 yearly_df);
          yearly_pos = filter (\<lambda>(r, v). day_ahead_price_eur_mwh r \<ge> 0) t;
          y_grp =
            map (\<lambda>(k, g). (k, series_sum (map (solar_mw_avg \<circ> fst) g),
                               series_sum (map snd g),
                               series_mean (map (day_ahead_price_eur_mwh \<circ> fst) g)))
              (groupby (\<lambda>(r, v). year r) t);
          y_pos_grp =
            map (\<lambda>(k, g). (k, series_sum (map (solar_mw_avg \<circ> fst) g), series_sum (map snd g)))
              (groupby (\<lambda>(r, v). year r) yearly_pos);
          pv = map (\<lambda>(k, (s, v, p)). (k, fdiv v s)) y_grp;
          pv_pos = map (\<lambda>(k, (s, v)). (k, fdiv v s)) y_pos_grp;
          base = map (\<lambda>(k, (s, v, p)). (k, p)) y_grp;
          index = sort (remdups (map fst pv @ map fst pv_pos @ map fst base));
          y_res =
            map (\<lambda>y. \<lparr>y_year = y, y_pv_price = at_year pv y, y_pv_price_pos = at_year pv_pos y,
                       y_baseload_price = at_year base y,
                       y_capture_rate = fdiv (at_year pv y) (at_year base y)\<rparr>) index
      in (y_res, h2))"

text \<open>
  What a run of the page shows, in order. The widgets' layout and the number formats are
  left out; the third tab, which only filters \<^verbatim>\<open>df\<close> for its charts, is one event.
  An exception ends the run (\<open>Uncaught\<close>). The flag emoji of the title is left out.
\<close>

datatype ui =
  Title string
| Markdown string
| StError string
| Tabs "string list"
| Header string
| Subheader string
| StatsTable "stats_row list"
| YearlyTable "yearly_row list"
| CaptureTable "capture_row list"
| ScatterPlots
| Uncaught py_error

definition not_found_message :: string where
  "not_found_message =
     ''Data file `'' @ INPUT_FILE @ ''` not found. Please run the fetch script.''"

text \<open>\<open>multiselect\<close> is the user's choice among the years offered. A run of the page
  starts from the memo the process holds and leaves the memo for the next run.\<close>

definition main ::
  "(string \<rightharpoonup> csv_file) \<Rightarrow> (int list \<Rightarrow> int list) \<Rightarrow> memo \<Rightarrow> heap \<Rightarrow> ui list \<times> memo" where
  "main fs multiselect c0 h0 =
     (case load_data fs c0 h0 of
        Inl e \<Rightarrow>
          ([Title ''Energy Charts Dashboard'',
            Markdown ''Analysis of German residual load, electricity prices, and solar capture rates.'',
            Uncaught e], c0)
      | Inr (None, c, h) \<Rightarrow>
          ([Title ''Energy Charts Dashboard'',
            Markdown ''Analysis of German residual load, electricity prices, and solar capture rates.'',
            StError not_found_message], c)
      | Inr (Some df, c, h) \<Rightarrow>
          ([Title ''Energy Charts Dashboard'',
            Markdown ''Analysis of German residual load, electricity prices, and solar capture rates.'',
            Tabs [''Monthly Statistics'', ''Solar Capture Prices'', ''Scatter Plots''],
            Header ''Monthly Market Statistics''] @
           (case calculate_monthly_stats h df of
              (Inl e, h1) \<Rightarrow> [Uncaught e]
            | (Inr stats_df, h1) \<Rightarrow>
                (let years = sort (remdups (map s_year stats_df));
                     selected_years = multiselect years;
                     show_df = filter (\<lambda>r. s_year r \<in> set selected_years) stats_df;
                     (cap_df, h2) = calculate_capture_prices h1 df;
                     (y_res, h3) = yearly_overview h2 df
                 in [StatsTable show_df,
                     Header ''Solar Capture Prices & Curtailment'',
                     Subheader ''Yearly Overview'',
                     YearlyTable y_res,
                     Subheader ''Monthly Details'',
                     CaptureTable cap_df,
                     Header ''Residual Load vs. Price'',
                     ScatterPlots])), c))"

section \<open>Vocabulary of the properties\<close>

text \<open>The rows of one month, of one year and of one day of a frame, and the two sums
  the capture prices are made of.\<close>

definition month_rows :: "int \<Rightarrow> int \<Rightarrow> hourly list \<Rightarrow> hourly list" where
  "month_rows y m rs = filter (\<lambda>r. year r = y \<and> month r = m) rs"

definition year_rows :: "int \<Rightarrow> hourly list \<Rightarrow> hourly list" where
  "year_rows y rs = filter (\<lambda>r. year r = y) rs"

definition day_rows :: "int \<times> int \<times> date \<Rightarrow> hourly list \<Rightarrow> hourly list" where
  "day_rows k rs = filter (\<lambda>r. (year r, month r, date r) = k) rs"

definition nonneg_price :: "hourly list \<Rightarrow> hourly list" where
  "nonneg_price g = filter (\<lambda>r. 0 \<le> day_ahead_price_eur_mwh r) g"

definition solar_total :: "hourly list \<Rightarrow> real" where
  "solar_total g = (\<Sum>r\<leftarrow>g. solar_mw_avg r)"

definition revenue_total :: "hourly list \<Rightarrow> real" where
  "revenue_total g = (\<Sum>r\<leftarrow>g. solar_mw_avg r * day_ahead_price_eur_mwh r)"

text \<open>The row of the capture table for the month \<open>k\<close>, written group by group.\<close>

definition capture_of :: "hourly list \<Rightarrow> int \<times> int \<Rightarrow> capture_row" where
  "capture_of rs k =
     (let g = month_rows (fst k) (snd k) rs;
          gp = nonneg_price g;
          s = Num (solar_total g);
          v = Num (revenue_total g);
          p = series_mean (map day_ahead_price_eur_mwh g);
          sp = (if gp = [] then NaN else Num (solar_total gp));
          vp = (if gp = [] then NaN else Num (revenue_total gp))
      in \<lparr>c_year = fst k, c_month = snd k, c_solar_mw_avg = s, c_solar_revenue = v,
          c_day_ahead_price_eur_mwh = p, solar_mw_pos = sp, solar_rev_pos = vp,
          pv_price = fdiv v s, pv_price_pos = fdiv vp sp, baseload_price = p,
          capture_rate = fdiv (fdiv v s) p\<rparr>)"

text \<open>Concrete inputs: a CSV row, and the store that holds one loaded frame, at
  reference 0.\<close>

definition hour :: "int \<Rightarrow> int \<Rightarrow> int \<Rightarrow> int \<Rightarrow> real \<Rightarrow> real \<Rightarrow> real \<Rightarrow> csv_row" where
  "hour y m d hr res price sol =
     \<lparr>datetime_utc = \<lparr>ts_year = y, ts_month = m, ts_day = d, ts_hour = hr\<rparr>,
      csv_residual_load_mw_avg = res, csv_day_ahead_price_eur_mwh = price,
      csv_solar_mw_avg = sol\<rparr>"

definition store_of :: "csv_row list \<Rightarrow> heap" where
  "store_of raw =
     \<lparr>objs = (\<lambda>p. \<lparr>rows = map derive raw, solar_revenue = None\<rparr>), fresh = 1\<rparr>"

definition ex_capture :: heap where
  "ex_capture = store_of
     [hour 2024 1 1 0 100 10 1, hour 2024 1 1 1 100 20 3, hour 2024 1 1 2 100 (- 4) 2,
      hour 2024 1 1 3 100 0 5,
      hour 2024 2 1 0 100 5 0,
      hour 2024 3 1 0 100 (- 3) 2]"

definition ex_zero_base :: heap where
  "ex_zero_base = store_of [hour 2024 1 1 0 100 10 1, hour 2024 1 1 1 100 (- 10) 0]"

definition ex_zero_both :: heap where
  "ex_zero_both = store_of [hour 2024 1 1 0 100 0 1]"

text \<open>The row of the yearly overview for the year \<open>y\<close>, written group by group.\<close>

definition yearly_of :: "hourly list \<Rightarrow> int \<Rightarrow> yearly_row" where
  "yearly_of rs y =
     (let g = year_rows y rs;
          gp = nonneg_price g;
          pv = fdiv (Num (revenue_total g)) (Num (solar_total g));
          p = series_mean (map day_ahead_price_eur_mwh g)
      in \<lparr>y_year = y, y_pv_price = pv,
          y_pv_price_pos =
            (if gp = [] then NaN else fdiv (Num (revenue_total gp)) (Num (solar_total gp))),
          y_baseload_price = p, y_capture_rate = fdiv pv p\<rparr>)"

definition ex_year :: heap where
  "ex_year = store_of [hour 2024 1 1 0 100 10 1, hour 2024 2 1 0 100 20 3]"

text \<open>The days of a month that the frame has rows for, the cell of a day in the column
  \<^verbatim>\<open>spread\<close>, and the row of the statistics table for the month \<open>k\<close>, written
  group by group.\<close>

definition month_days :: "int \<Rightarrow> int \<Rightarrow> hourly list \<Rightarrow> (int \<times> int \<times> date) list" where
  "month_days y m rs =
     filter (\<lambda>(y', m', d). y' = y \<and> m' = m) (group_keys (\<lambda>r. (year r, month r, date r)) rs)"

definition spread_cell :: "hourly list \<Rightarrow> cell" where
  "spread_cell g = (case daily_spread g of None \<Rightarrow> NaN | Some c \<Rightarrow> c)"

definition stats_of :: "hourly list \<Rightarrow> int \<times> int \<Rightarrow> stats_row" where
  "stats_of rs k =
     (let g = month_rows (fst k) (snd k) rs;
          (a, n, rn, rh) = monthly_agg g
      in \<lparr>s_year = fst k, s_month = snd k, avg_price = a, neg_hours = n,
          avg_price_res_neg = rn, avg_price_res_high = rh,
          avg_spread = nanmean (map (\<lambda>d. spread_cell (day_rows d rs))
                                 (month_days (fst k) (snd k) rs))\<rparr>)"

definition ex_day :: "csv_row list" where
  "ex_day = [hour 2024 1 1 0 70000 30 0, hour 2024 1 1 1 100 10 0, hour 2024 1 1 2 100 80 0,
             hour 2024 1 1 3 100 20 0, hour 2024 1 1 4 100 50 0, hour 2024 1 1 5 100 40 0,
             hour 2024 1 1 6 100 70 0, hour 2024 1 1 7 100 60 0]"

definition ex_stats :: heap where
  "ex_stats = store_of (ex_day @ [hour 2024 2 1 0 (- 5) (- 12) 0])"

definition ex_short :: heap where
  "ex_short = store_of [hour 2024 2 1 0 (- 5) (- 12) 0]"

text \<open>The store before anything is loaded.\<close>

definition empty_heap :: heap where
  "empty_heap = \<lparr>objs = (\<lambda>p. \<lparr>rows = [], solar_revenue = None\<rparr>), fresh = 0\<rparr>"

text \<open>A CSV of one hour, and the frame it loads as.\<close>

definition ex_csv :: "csv_row list" where
  "ex_csv = [hour 2024 3 5 7 100 10 1]"

definition ex_loaded :: frame where
  "ex_loaded =
     \<lparr>rows = [\<lparr>datetime = \<lparr>ts_year = 2024, ts_month = 3, ts_day = 5, ts_hour = 7\<rparr>,
               year = 2024, month = 3, date = (2024, 3, 5),
               residual_load_mw_avg = 100, day_ahead_price_eur_mwh = 10, solar_mw_avg = 1\<rparr>],
      solar_revenue = None\<rparr>"

definition ex_neg_solar :: heap where
  "ex_neg_solar = store_of [hour 2024 1 1 0 100 10 1, hour 2024 1 1 1 100 20 (- 1)]"

section \<open>Grouping, merging and the store: basic facts\<close>

lemma set_group_keys: "set (group_keys key rs) = key ` set rs"
  by (simp add: group_keys_def)

lemma distinct_group_keys: "distinct (group_keys key rs)"
  by (simp add: group_keys_def)

lemma group_keys_map: "group_keys key (map f rs) = group_keys (key \<circ> f) rs"
  by (simp add: group_keys_def)

lemma filter_key_distinct:
  "distinct (map fst xs) \<Longrightarrow>
   filter (\<lambda>(k', b). k' = k) xs = (case map_of xs k of None \<Rightarrow> [] | Some v \<Rightarrow> [(k, v)])"
proof (induction xs)
  case Nil
  then show ?case by simp
next
  case (Cons x xs)
  obtain k0 v0 where x: "x = (k0, v0)" by (cases x)
  show ?case
  proof (cases "k0 = k")
    case True
    with Cons.prems x have "map_of xs k = None"
      by (simp add: map_of_eq_None_iff)
    with Cons x True show ?thesis by simp
  next
    case False
    with Cons x show ?thesis by simp
  qed
qed

lemma merge_left_distinct:
  "distinct (map fst right) \<Longrightarrow>
   merge_left left right = map (\<lambda>(k, a). (k, a, map_of right k)) left"
  by (induction left) (auto simp: merge_left_def filter_key_distinct split: option.splits)

lemma merge_inner_distinct:
  "distinct (map fst right) \<Longrightarrow>
   merge_inner left right =
     concat (map (\<lambda>(k, a). case map_of right k of None \<Rightarrow> [] | Some b \<Rightarrow> [(k, a, b)]) left)"
  by (induction left) (auto simp: merge_inner_def filter_key_distinct split: option.splits)

lemma map_of_keyed:
  "map_of (map (\<lambda>k. (k, G k)) ks) k = (if k \<in> set ks then Some (G k) else None)"
  by (induction ks) auto

lemma zip_map_same: "zip xs (map f xs) = map (\<lambda>x. (x, f x)) xs"
  by (induction xs) auto

lemma revenue_frame:
  "with_revenue (objs (set_solar_revenue (snd (df_copy h p)) (fst (df_copy h p))
      (map f (rows (objs (snd (df_copy h p)) (fst (df_copy h p)))))) (fst (df_copy h p)))
   = map (\<lambda>r. (r, f r)) (rows (objs h p))"
  by (simp add: with_revenue_def set_solar_revenue_def df_copy_def alloc_def zip_map_same)

section \<open>The capture table, month by month\<close>

lemma capture_table:
  "fst (calculate_capture_prices h df0) =
   map (capture_of (rows (objs h df0))) (group_keys (\<lambda>r. (year r, month r)) (rows (objs h df0)))"
proof -
  define rs where "rs = rows (objs h df0)"
  define f where "f = (\<lambda>r::hourly. solar_mw_avg r * day_ahead_price_eur_mwh r)"
  define t where "t = map (\<lambda>r. (r, f r)) rs"
  define ks where "ks = group_keys (\<lambda>r. (year r, month r)) rs"
  have t: "with_revenue (objs (set_solar_revenue (snd (df_copy h df0)) (fst (df_copy h df0))
             (map f (rows (objs (snd (df_copy h df0)) (fst (df_copy h df0))))))
             (fst (df_copy h df0))) = t"
    unfolding t_def rs_def by (rule revenue_frame)
  have pos: "filter (\<lambda>(r, v). day_ahead_price_eur_mwh r \<ge> 0) t
             = map (\<lambda>r. (r, f r)) (nonneg_price rs)"
    by (simp add: t_def nonneg_price_def filter_map comp_def)
  have ks: "group_keys (\<lambda>(r, v). (year r, month r)) t = ks"
    by (simp add: t_def ks_def group_keys_map comp_def)
  have grouped:
    "map (\<lambda>(k, g). (k, series_sum (map (solar_mw_avg \<circ> fst) g), series_sum (map snd g),
                       series_mean (map (day_ahead_price_eur_mwh \<circ> fst) g)))
       (groupby (\<lambda>(r, v). (year r, month r)) t)
     = map (\<lambda>k. (k, Num (solar_total (month_rows (fst k) (snd k) rs)),
                    Num (revenue_total (month_rows (fst k) (snd k) rs)),
                    series_mean (map day_ahead_price_eur_mwh (month_rows (fst k) (snd k) rs)))) ks"
    apply (simp add: groupby_def ks comp_def)
    apply (simp add: t_def filter_map comp_def series_sum_def solar_total_def
             revenue_total_def month_rows_def f_def prod_eq_iff)
    done
  have kpos: "group_keys (\<lambda>(r, v). (year r, month r)) (map (\<lambda>r. (r, f r)) (nonneg_price rs))
              = group_keys (\<lambda>r. (year r, month r)) (nonneg_price rs)"
    by (simp add: group_keys_map comp_def)
  have posg:
    "map (\<lambda>(k, g). (k, series_sum (map (solar_mw_avg \<circ> fst) g), series_sum (map snd g)))
       (groupby (\<lambda>(r, v). (year r, month r))
          (filter (\<lambda>(r, v). day_ahead_price_eur_mwh r \<ge> 0) t))
     = map (\<lambda>k. (k, Num (solar_total (nonneg_price (month_rows (fst k) (snd k) rs))),
                    Num (revenue_total (nonneg_price (month_rows (fst k) (snd k) rs)))))
         (group_keys (\<lambda>r. (year r, month r)) (nonneg_price rs))"
    apply (simp add: pos groupby_def kpos comp_def)
    apply (simp add: filter_map comp_def series_sum_def solar_total_def revenue_total_def
             month_rows_def nonneg_price_def f_def prod_eq_iff conj_commute)
    done
  have dist:
    "distinct (map fst
       (map (\<lambda>k. (k, Num (solar_total (nonneg_price (month_rows (fst k) (snd k) rs))),
                     Num (revenue_total (nonneg_price (month_rows (fst k) (snd k) rs)))))
          (group_keys (\<lambda>r. (year r, month r)) (nonneg_price rs))))"
    by (simp add: comp_def distinct_group_keys)
  have mem: "k \<in> set (group_keys (\<lambda>r. (year r, month r)) (nonneg_price rs))
              \<longleftrightarrow> nonneg_price (month_rows (fst k) (snd k) rs) \<noteq> []" for k
    by (cases k)
       (force simp: set_group_keys nonneg_price_def month_rows_def filter_empty_conv image_iff)
  note t' = t [unfolded f_def]
  note g' = grouped [unfolded split_def]
  note p' = posg [unfolded split_def]
  show ?thesis
    unfolding calculate_capture_prices_def Let_def split_def fst_conv
    apply (simp only: t' g' p' merge_left_distinct [OF dist] map_of_keyed mem)
    apply (simp add: comp_def capture_of_def Let_def rs_def ks_def split_def)
    done
qed

lemma capture_row_cases:
  assumes "row \<in> set (fst (calculate_capture_prices h df))"
  shows "(c_year row, c_month row) \<in> (\<lambda>r. (year r, month r)) ` set (rows (objs h df)) \<and>
         row = capture_of (rows (objs h df)) (c_year row, c_month row)"
proof -
  from assms obtain k
    where k: "k \<in> set (group_keys (\<lambda>r. (year r, month r)) (rows (objs h df)))"
      and row: "row = capture_of (rows (objs h df)) k"
    by (auto simp: capture_table)
  have "(c_year row, c_month row) = k"
    by (simp add: row capture_of_def Let_def)
  with k row show ?thesis by (simp add: set_group_keys)
qed

lemma month_rows_nonempty:
  "(y, m) \<in> (\<lambda>r. (year r, month r)) ` set rs \<Longrightarrow> month_rows y m rs \<noteq> []"
  by (auto simp: month_rows_def filter_empty_conv)

lemma capture_keys:
  "map (\<lambda>row. (c_year row, c_month row)) (fst (calculate_capture_prices h df)) =
   group_keys (\<lambda>r. (year r, month r)) (rows (objs h df))"
  by (simp add: capture_table comp_def capture_of_def Let_def)

lemma nonneg_sum_zero:
  assumes "\<forall>r\<in>set g. 0 \<le> solar_mw_avg r" and "solar_total g = 0"
  shows "revenue_total g = 0"
proof -
  have "\<forall>x\<in>set (map solar_mw_avg g). x = 0"
    using assms sum_list_nonneg_eq_0_iff [of "map solar_mw_avg g"]
    by (auto simp: solar_total_def)
  then have "\<forall>r\<in>set g. solar_mw_avg r * day_ahead_price_eur_mwh r = 0" by simp
  then show ?thesis
    unfolding revenue_total_def by (induction g) auto
qed

lemma rows_store_of: "rows (objs (store_of raw) p) = map derive raw"
  by (simp add: store_of_def)

lemma ex_capture_keys:
  "group_keys (\<lambda>r. (year r, month r)) (rows (objs ex_capture 0)) = [(2024, 1), (2024, 2), (2024, 3)]"
  by (simp add: ex_capture_def rows_store_of group_keys_def derive_def hour_def less_eq_prod_def)

lemma ex_capture_table:
  "fst (calculate_capture_prices ex_capture 0) =
     [capture_of (rows (objs ex_capture 0)) (2024, 1),
      capture_of (rows (objs ex_capture 0)) (2024, 2),
      capture_of (rows (objs ex_capture 0)) (2024, 3)]"
  by (simp only: capture_table ex_capture_keys list.map)

lemma ex_capture_rows:
  "rows (objs ex_capture 0) = map derive
     [hour 2024 1 1 0 100 10 1, hour 2024 1 1 1 100 20 3, hour 2024 1 1 2 100 (- 4) 2,
      hour 2024 1 1 3 100 0 5,
      hour 2024 2 1 0 100 5 0,
      hour 2024 3 1 0 100 (- 3) 2]"
  by (simp add: ex_capture_def rows_store_of)

section \<open>Claims about the capture table\<close>

lemma ex_capture_first: "capture_of (rows (objs ex_capture 0)) (2024, 1) \<in> set (fst (calculate_capture_prices ex_capture 0))"
  by (simp only: ex_capture_table list.set insertI1)

lemma ex_capture_second: "capture_of (rows (objs ex_capture 0)) (2024, 2) \<in> set (fst (calculate_capture_prices ex_capture 0))"
  by (simp add: ex_capture_table)

lemma ex_capture_third: "capture_of (rows (objs ex_capture 0)) (2024, 3) \<in> set (fst (calculate_capture_prices ex_capture 0))"
  by (simp add: ex_capture_table)

lemma ex_neg_solar_rows:
  "rows (objs ex_neg_solar 0) = map derive [hour 2024 1 1 0 100 10 1, hour 2024 1 1 1 100 20 (- 1)]"
  by (simp add: ex_neg_solar_def rows_store_of)

lemma ex_neg_solar_table:
  "fst (calculate_capture_prices ex_neg_solar 0) = [capture_of (rows (objs ex_neg_solar 0)) (2024, 1)]"
proof -
  have "group_keys (\<lambda>r. (year r, month r)) (rows (objs ex_neg_solar 0)) = [(2024, 1)]"
    by (simp add: ex_neg_solar_rows group_keys_def derive_def hour_def)
  then show ?thesis by (simp only: capture_table list.map)
qed

lemma ex_neg_solar_row:
  "capture_of (rows (objs ex_neg_solar 0)) (2024, 1) =
      \<lparr>c_year = 2024, c_month = 1, c_solar_mw_avg = Num 0, c_solar_revenue = Num (- 10),
       c_day_ahead_price_eur_mwh = Num 15, solar_mw_pos = Num 0, solar_rev_pos = Num (- 10),
       pv_price = NInf, pv_price_pos = NInf, baseload_price = Num 15,
       capture_rate = NInf\<rparr>"
  by (simp add: ex_neg_solar_rows capture_of_def Let_def month_rows_def
        nonneg_price_def solar_total_def revenue_total_def series_mean_def derive_def hour_def)

text \<open>
  C4, as stated, fails. A month with solar output 1 at price 10 and -1 at price 20 has the
  solar sum 0 and the revenue sum -10, and its \<open>pv_price\<close> is the float
  \<open>-inf\<close>, not a missing value: nothing in the code keeps \<open>solar_mw_avg\<close>
  non-negative or guards the division.
\<close>

theorem pv_price_zero_solar_counterexample:
  "map c_solar_mw_avg (fst (calculate_capture_prices ex_neg_solar 0)) = [Num 0] \<and>
   map pv_price (fst (calculate_capture_prices ex_neg_solar 0)) = [NInf]"
  by (simp only: ex_neg_solar_table ex_neg_solar_row list.map capture_row.simps simp_thms)

text \<open>
  C4, amended. The capture table has exactly one row per (year, month) of the frame. In
  the row of a month, \<open>pv_price\<close> is the float quotient of the sum of
  \<open>solar_mw_avg * day_ahead_price_eur_mwh\<close> over the month's rows by the sum of
  \<open>solar_mw_avg\<close> over them: their quotient when the divisor is not 0; when the
  divisor is 0, undefined (NaN) if the revenue sum is 0 too, which it is whenever no
  \<open>solar_mw_avg\<close> of the month is negative, and otherwise \<open>+inf\<close> or
  \<open>-inf\<close> with the sign of the revenue sum.
\<close>

theorem pv_price_formula:
  "distinct (map (\<lambda>row. (c_year row, c_month row)) (fst (calculate_capture_prices h df))) \<and>
   set (map (\<lambda>row. (c_year row, c_month row)) (fst (calculate_capture_prices h df)))
     = (\<lambda>r. (year r, month r)) ` set (rows (objs h df)) \<and>
   (\<forall>row\<in>set (fst (calculate_capture_prices h df)).
      (let g = month_rows (c_year row) (c_month row) (rows (objs h df))
       in g \<noteq> [] \<and>
          pv_price row = fdiv (Num (revenue_total g)) (Num (solar_total g)) \<and>
          (solar_total g \<noteq> 0 \<longrightarrow> pv_price row = Num (revenue_total g / solar_total g)) \<and>
          (solar_total g = 0 \<and> revenue_total g = 0 \<longrightarrow> pv_price row = NaN) \<and>
          (solar_total g = 0 \<and> 0 < revenue_total g \<longrightarrow> pv_price row = PInf) \<and>
          (solar_total g = 0 \<and> revenue_total g < 0 \<longrightarrow> pv_price row = NInf) \<and>
          ((\<forall>r\<in>set g. 0 \<le> solar_mw_avg r) \<and> solar_total g = 0 \<longrightarrow> pv_price row = NaN)))"
proof (intro conjI ballI)
  show "distinct (map (\<lambda>row. (c_year row, c_month row)) (fst (calculate_capture_prices h df)))"
    by (simp only: capture_keys distinct_group_keys)
  show "set (map (\<lambda>row. (c_year row, c_month row)) (fst (calculate_capture_prices h df)))
     = (\<lambda>r. (year r, month r)) ` set (rows (objs h df))"
    by (simp only: capture_keys set_group_keys)
next
  fix row assume row: "row \<in> set (fst (calculate_capture_prices h df))"
  define g where "g = month_rows (c_year row) (c_month row) (rows (objs h df))"
  from capture_row_cases [OF row]
  have key: "(c_year row, c_month row) \<in> (\<lambda>r. (year r, month r)) ` set (rows (objs h df))"
    and eq: "row = capture_of (rows (objs h df)) (c_year row, c_month row)" by simp_all
  have ne: "g \<noteq> []" unfolding g_def using key by (rule month_rows_nonempty)
  have pv: "pv_price row = fdiv (Num (revenue_total g)) (Num (solar_total g))"
    by (subst eq) (simp add: capture_of_def Let_def g_def)
  have z: "(\<forall>r\<in>set g. 0 \<le> solar_mw_avg r) \<and> solar_total g = 0 \<longrightarrow> pv_price row = NaN"
    using nonneg_sum_zero [of g] by (auto simp: pv)
  show "let g = month_rows (c_year row) (c_month row) (rows (objs h df))
        in g \<noteq> [] \<and>
           pv_price row = fdiv (Num (revenue_total g)) (Num (solar_total g)) \<and>
           (solar_total g \<noteq> 0 \<longrightarrow> pv_price row = Num (revenue_total g / solar_total g)) \<and>
           (solar_total g = 0 \<and> revenue_total g = 0 \<longrightarrow> pv_price row = NaN) \<and>
           (solar_total g = 0 \<and> 0 < revenue_total g \<longrightarrow> pv_price row = PInf) \<and>
           (solar_total g = 0 \<and> revenue_total g < 0 \<longrightarrow> pv_price row = NInf) \<and>
           ((\<forall>r\<in>set g. 0 \<le> solar_mw_avg r) \<and> solar_total g = 0 \<longrightarrow> pv_price row = NaN)"
    using ne pv z unfolding Let_def g_def [symmetric] by simp
qed

theorem pv_price_formula_witness:
  "map pv_price (fst (calculate_capture_prices ex_capture 0)) = [Num (62 / 11), NaN, Num (- 3)] \<and>
   map pv_price (fst (calculate_capture_prices ex_neg_solar 0)) = [NInf]"
proof -
  let ?rs = "rows (objs ex_capture 0)"
  let ?a = "capture_of ?rs (2024, 1)" and ?b = "capture_of ?rs (2024, 2)"
    and ?c = "capture_of ?rs (2024, 3)"
  let ?ns = "rows (objs ex_neg_solar 0)"
  let ?n = "capture_of ?ns (2024, 1)"
  have keys: "c_year ?a = 2024" "c_month ?a = 1" "c_year ?b = 2024" "c_month ?b = 2"
    "c_year ?c = 2024" "c_month ?c = 3" "c_year ?n = 2024" "c_month ?n = 1"
    by (simp_all add: capture_of_def Let_def)
  have g1: "solar_total (month_rows 2024 1 ?rs) = 11" "revenue_total (month_rows 2024 1 ?rs) = 62"
    by (simp_all add: ex_capture_rows month_rows_def solar_total_def revenue_total_def derive_def hour_def)
  have g2: "solar_total (month_rows 2024 2 ?rs) = 0"
    "\<forall>r\<in>set (month_rows 2024 2 ?rs). 0 \<le> solar_mw_avg r"
    by (simp_all add: ex_capture_rows month_rows_def solar_total_def derive_def hour_def)
  have g3: "solar_total (month_rows 2024 3 ?rs) = 2" "revenue_total (month_rows 2024 3 ?rs) = - 6"
    by (simp_all add: ex_capture_rows month_rows_def solar_total_def revenue_total_def derive_def hour_def)
  have gn: "solar_total (month_rows 2024 1 ?ns) = 0" "revenue_total (month_rows 2024 1 ?ns) < 0"
    by (simp_all add: ex_neg_solar_rows month_rows_def solar_total_def revenue_total_def derive_def hour_def)
  note all = pv_price_formula [of ex_capture 0, THEN conjunct2, THEN conjunct2,
      unfolded ex_capture_table]
  note alln = pv_price_formula [of ex_neg_solar 0, THEN conjunct2, THEN conjunct2,
      unfolded ex_neg_solar_table]
  have ma: "?a \<in> set [?a, ?b, ?c]" and mb: "?b \<in> set [?a, ?b, ?c]"
    and mc: "?c \<in> set [?a, ?b, ?c]" and mn: "?n \<in> set [?n]"
    by simp_all
  note A = bspec [OF all ma, unfolded Let_def keys]
  note B = bspec [OF all mb, unfolded Let_def keys]
  note C = bspec [OF all mc, unfolded Let_def keys]
  note N = bspec [OF alln mn, unfolded Let_def keys]
  have a: "pv_price ?a = Num (62 / 11)"
  proof -
    from A have "solar_total (month_rows 2024 1 ?rs) \<noteq> 0 \<longrightarrow>
          pv_price ?a = Num (revenue_total (month_rows 2024 1 ?rs) / solar_total (month_rows 2024 1 ?rs))"
      by blast
    then show ?thesis by (simp add: g1)
  qed
  have b: "pv_price ?b = NaN"
  proof -
    from B have "(\<forall>r\<in>set (month_rows 2024 2 ?rs). 0 \<le> solar_mw_avg r) \<and>
          solar_total (month_rows 2024 2 ?rs) = 0 \<longrightarrow> pv_price ?b = NaN"
      by blast
    with g2 show ?thesis by blast
  qed
  have c: "pv_price ?c = Num (- 3)"
  proof -
    from C have "solar_total (month_rows 2024 3 ?rs) \<noteq> 0 \<longrightarrow>
          pv_price ?c = Num (revenue_total (month_rows 2024 3 ?rs) / solar_total (month_rows 2024 3 ?rs))"
      by blast
    then show ?thesis by (simp add: g3)
  qed
  have n: "pv_price ?n = NInf"
  proof -
    from N have "solar_total (month_rows 2024 1 ?ns) = 0 \<and> revenue_total (month_rows 2024 1 ?ns) < 0
          \<longrightarrow> pv_price ?n = NInf"
      by blast
    with gn show ?thesis by blast
  qed
  show ?thesis
    by (simp only: ex_capture_table ex_neg_solar_table list.map a b c n simp_thms)
qed


lemma ex_neg_solar_first:
  "capture_of (rows (objs ex_neg_solar 0)) (2024, 1) \<in> set (fst (calculate_capture_prices ex_neg_solar 0))"
  by (simp only: ex_neg_solar_table list.set insertI1)

text \<open>
  C5, as stated, fails. In the same month (solar output 1 at price 10 and -1 at price 20,
  both prices non-negative) the restricted solar sum is 0 and \<open>pv_price_pos\<close> is
  the float \<open>-inf\<close>, not a missing value.
\<close>

theorem pv_price_pos_zero_solar_counterexample:
  "map solar_mw_pos (fst (calculate_capture_prices ex_neg_solar 0)) = [Num 0] \<and>
   map pv_price_pos (fst (calculate_capture_prices ex_neg_solar 0)) = [NInf]"
  by (simp only: ex_neg_solar_table ex_neg_solar_row list.map capture_row.simps simp_thms)

text \<open>
  C5, amended. In the row of a month, \<open>pv_price_pos\<close> is computed from the month's
  rows whose price is at least 0 (a price of exactly 0 counts, a negative one does not).
  It is undefined (NaN) when the month has no such row. Otherwise it is the float quotient
  of their revenue sum by their solar sum: their quotient when the divisor is not 0; when
  the divisor is 0, undefined (NaN) if the revenue sum is 0 too, which it is whenever no
  \<open>solar_mw_avg\<close> among them is negative, and otherwise \<open>+inf\<close> or
  \<open>-inf\<close> with the sign of the revenue sum.
\<close>

theorem pv_price_pos_formula:
  assumes "row \<in> set (fst (calculate_capture_prices h df))"
  shows "let gp = filter (\<lambda>r. 0 \<le> day_ahead_price_eur_mwh r)
                    (month_rows (c_year row) (c_month row) (rows (objs h df)))
         in (gp = [] \<longrightarrow> pv_price_pos row = NaN) \<and>
            (gp \<noteq> [] \<longrightarrow> pv_price_pos row = fdiv (Num (revenue_total gp)) (Num (solar_total gp))) \<and>
            (gp \<noteq> [] \<and> solar_total gp \<noteq> 0 \<longrightarrow>
               pv_price_pos row = Num (revenue_total gp / solar_total gp)) \<and>
            (solar_total gp = 0 \<and> revenue_total gp = 0 \<longrightarrow> pv_price_pos row = NaN) \<and>
            (solar_total gp = 0 \<and> 0 < revenue_total gp \<longrightarrow> pv_price_pos row = PInf) \<and>
            (solar_total gp = 0 \<and> revenue_total gp < 0 \<longrightarrow> pv_price_pos row = NInf) \<and>
            ((\<forall>r\<in>set gp. 0 \<le> solar_mw_avg r) \<and> solar_total gp = 0 \<longrightarrow> pv_price_pos row = NaN)"
proof -
  define gp where "gp = nonneg_price (month_rows (c_year row) (c_month row) (rows (objs h df)))"
  from capture_row_cases [OF assms]
  have eq: "row = capture_of (rows (objs h df)) (c_year row, c_month row)" by simp
  have pos: "pv_price_pos row =
      (if gp = [] then NaN else fdiv (Num (revenue_total gp)) (Num (solar_total gp)))"
    by (subst eq) (simp add: capture_of_def Let_def gp_def)
  have z: "(\<forall>r\<in>set gp. 0 \<le> solar_mw_avg r) \<and> solar_total gp = 0 \<longrightarrow> pv_price_pos row = NaN"
    using nonneg_sum_zero [of gp] by (auto simp: pos)
  have e: "gp = [] \<longrightarrow> revenue_total gp = 0"
    by (simp add: revenue_total_def)
  have inf: "(solar_total gp = 0 \<and> revenue_total gp = 0 \<longrightarrow> pv_price_pos row = NaN) \<and>
             (solar_total gp = 0 \<and> 0 < revenue_total gp \<longrightarrow> pv_price_pos row = PInf) \<and>
             (solar_total gp = 0 \<and> revenue_total gp < 0 \<longrightarrow> pv_price_pos row = NInf)"
    using e by (auto simp: pos)
  show ?thesis
    using pos z inf unfolding Let_def gp_def nonneg_price_def by simp
qed

theorem pv_price_pos_formula_witness:
  "map pv_price_pos (fst (calculate_capture_prices ex_capture 0)) = [Num (70 / 9), NaN, NaN] \<and>
   map pv_price_pos (fst (calculate_capture_prices ex_neg_solar 0)) = [NInf]"
proof -
  let ?rs = "rows (objs ex_capture 0)"
  let ?a = "capture_of ?rs (2024, 1)" and ?b = "capture_of ?rs (2024, 2)"
    and ?c = "capture_of ?rs (2024, 3)"
  let ?ns = "rows (objs ex_neg_solar 0)"
  let ?n = "capture_of ?ns (2024, 1)"
  have keys: "c_year ?a = 2024" "c_month ?a = 1" "c_year ?b = 2024" "c_month ?b = 2"
    "c_year ?c = 2024" "c_month ?c = 3" "c_year ?n = 2024" "c_month ?n = 1"
    by (simp_all add: capture_of_def Let_def)
  have g1: "filter (\<lambda>r. 0 \<le> day_ahead_price_eur_mwh r) (month_rows 2024 1 ?rs) =
      map derive [hour 2024 1 1 0 100 10 1, hour 2024 1 1 1 100 20 3, hour 2024 1 1 3 100 0 5]"
    by (simp add: ex_capture_rows month_rows_def derive_def hour_def)
  have s1: "solar_total (map derive [hour 2024 1 1 0 100 10 1, hour 2024 1 1 1 100 20 3, hour 2024 1 1 3 100 0 5]) = 9"
    "revenue_total (map derive [hour 2024 1 1 0 100 10 1, hour 2024 1 1 1 100 20 3, hour 2024 1 1 3 100 0 5]) = 70"
    by (simp_all add: solar_total_def revenue_total_def derive_def hour_def)
  have g2: "filter (\<lambda>r. 0 \<le> day_ahead_price_eur_mwh r) (month_rows 2024 2 ?rs) =
      map derive [hour 2024 2 1 0 100 5 0]"
    by (simp add: ex_capture_rows month_rows_def derive_def hour_def)
  have s2: "solar_total (map derive [hour 2024 2 1 0 100 5 0]) = 0"
    "\<forall>r\<in>set (map derive [hour 2024 2 1 0 100 5 0]). 0 \<le> solar_mw_avg r"
    by (simp_all add: solar_total_def derive_def hour_def)
  have g3: "filter (\<lambda>r. 0 \<le> day_ahead_price_eur_mwh r) (month_rows 2024 3 ?rs) = []"
    by (simp add: ex_capture_rows month_rows_def derive_def hour_def)
  have gn: "filter (\<lambda>r. 0 \<le> day_ahead_price_eur_mwh r) (month_rows 2024 1 ?ns) =
      map derive [hour 2024 1 1 0 100 10 1, hour 2024 1 1 1 100 20 (- 1)]"
    by (simp add: ex_neg_solar_rows month_rows_def derive_def hour_def)
  have sn: "solar_total (map derive [hour 2024 1 1 0 100 10 1, hour 2024 1 1 1 100 20 (- 1)]) = 0"
    "revenue_total (map derive [hour 2024 1 1 0 100 10 1, hour 2024 1 1 1 100 20 (- 1)]) < 0"
    by (simp_all add: solar_total_def revenue_total_def derive_def hour_def)
  have a: "pv_price_pos ?a = Num (70 / 9)"
    using pv_price_pos_formula [OF ex_capture_first] unfolding Let_def keys g1 s1 by simp
  have b: "pv_price_pos ?b = NaN"
    using pv_price_pos_formula [OF ex_capture_second] s2 unfolding Let_def keys g2 by blast
  have c: "pv_price_pos ?c = NaN"
    using pv_price_pos_formula [OF ex_capture_third] unfolding Let_def keys g3 by simp
  have n: "pv_price_pos ?n = NInf"
    using pv_price_pos_formula [OF ex_neg_solar_first] sn unfolding Let_def keys gn by blast
  show ?thesis
    by (simp only: ex_capture_table ex_neg_solar_table list.map a b c n simp_thms)
qed

lemma ex_zero_base_table:
  "fst (calculate_capture_prices ex_zero_base 0) = [capture_of (rows (objs ex_zero_base 0)) (2024, 1)]"
proof -
  have "group_keys (\<lambda>r. (year r, month r)) (rows (objs ex_zero_base 0)) = [(2024, 1)]"
    by (simp add: ex_zero_base_def rows_store_of group_keys_def derive_def hour_def)
  then show ?thesis by (simp only: capture_table list.map)
qed

lemma ex_zero_both_table:
  "fst (calculate_capture_prices ex_zero_both 0) = [capture_of (rows (objs ex_zero_both 0)) (2024, 1)]"
proof -
  have "group_keys (\<lambda>r. (year r, month r)) (rows (objs ex_zero_both 0)) = [(2024, 1)]"
    by (simp add: ex_zero_both_def rows_store_of group_keys_def derive_def hour_def)
  then show ?thesis by (simp only: capture_table list.map)
qed

text \<open>
  C6, as stated, fails. A month with prices 10 and -10 and solar output 1 and 0 has the
  baseload price 0 and the capture price 10, and its capture rate is the float
  \<open>+inf\<close>, not a missing value. A month whose only hour has price 0 and solar output 1
  has capture price and baseload price both 0, equal, and its capture rate is NaN, not 1.
\<close>

theorem capture_rate_zero_baseload_counterexample:
  "map pv_price (fst (calculate_capture_prices ex_zero_base 0)) = [Num 10] \<and>
   map baseload_price (fst (calculate_capture_prices ex_zero_base 0)) = [Num 0] \<and>
   map capture_rate (fst (calculate_capture_prices ex_zero_base 0)) = [PInf] \<and>
   map pv_price (fst (calculate_capture_prices ex_zero_both 0)) = [Num 0] \<and>
   map baseload_price (fst (calculate_capture_prices ex_zero_both 0)) = [Num 0] \<and>
   map capture_rate (fst (calculate_capture_prices ex_zero_both 0)) = [NaN]"
proof -
  have a: "capture_of (rows (objs ex_zero_base 0)) (2024, 1) =
      \<lparr>c_year = 2024, c_month = 1, c_solar_mw_avg = Num 1, c_solar_revenue = Num 10,
       c_day_ahead_price_eur_mwh = Num 0, solar_mw_pos = Num 1, solar_rev_pos = Num 10,
       pv_price = Num 10, pv_price_pos = Num 10, baseload_price = Num 0,
       capture_rate = PInf\<rparr>"
    by (simp add: ex_zero_base_def rows_store_of capture_of_def Let_def month_rows_def
          nonneg_price_def solar_total_def revenue_total_def series_mean_def derive_def hour_def)
  have b: "capture_of (rows (objs ex_zero_both 0)) (2024, 1) =
      \<lparr>c_year = 2024, c_month = 1, c_solar_mw_avg = Num 1, c_solar_revenue = Num 0,
       c_day_ahead_price_eur_mwh = Num 0, solar_mw_pos = Num 1, solar_rev_pos = Num 0,
       pv_price = Num 0, pv_price_pos = Num 0, baseload_price = Num 0,
       capture_rate = NaN\<rparr>"
    by (simp add: ex_zero_both_def rows_store_of capture_of_def Let_def month_rows_def
          nonneg_price_def solar_total_def revenue_total_def series_mean_def derive_def hour_def)
  show ?thesis
    by (simp only: ex_zero_base_table ex_zero_both_table a b list.map capture_row.simps simp_thms)
qed

lemma fdiv_Num_one: "fdiv c (Num b) = Num 1 \<longleftrightarrow> c = Num b \<and> b \<noteq> 0"
  by (cases c) (auto split: if_splits)

lemma fdiv_Num_zero:
  "fdiv c (Num 0) =
     (case c of Num a \<Rightarrow> if 0 < a then PInf else if a < 0 then NInf else NaN
      | PInf \<Rightarrow> PInf | NInf \<Rightarrow> NInf | NaN \<Rightarrow> NaN)"
  by (cases c) auto

text \<open>
  C6, amended. In the row of a month, \<open>baseload_price\<close> is the arithmetic mean of
  the month's prices and \<open>capture_rate\<close> is the float quotient of \<open>pv_price\<close>
  by it: the quotient of the two numbers when the baseload price is not 0; when it is 0,
  NaN if \<open>pv_price\<close> is 0 or NaN and an infinity with the sign of \<open>pv_price\<close>
  otherwise. The capture rate is 1 exactly when \<open>pv_price\<close> equals the baseload
  price and the baseload price is not 0.
\<close>

theorem capture_rate_formula:
  assumes "row \<in> set (fst (calculate_capture_prices h df))"
  shows "let g = month_rows (c_year row) (c_month row) (rows (objs h df));
             b = sum_list (map day_ahead_price_eur_mwh g) / real (length g)
         in g \<noteq> [] \<and> baseload_price row = Num b \<and>
            capture_rate row = fdiv (pv_price row) (baseload_price row) \<and>
            (b \<noteq> 0 \<longrightarrow> (\<forall>a. pv_price row = Num a \<longrightarrow> capture_rate row = Num (a / b))) \<and>
            (b = 0 \<longrightarrow> capture_rate row =
               (case pv_price row of
                  Num a \<Rightarrow> if 0 < a then PInf else if a < 0 then NInf else NaN
                | PInf \<Rightarrow> PInf | NInf \<Rightarrow> NInf | NaN \<Rightarrow> NaN)) \<and>
            (capture_rate row = Num 1 \<longleftrightarrow> pv_price row = baseload_price row \<and> b \<noteq> 0)"
proof -
  define g where "g = month_rows (c_year row) (c_month row) (rows (objs h df))"
  define b where "b = sum_list (map day_ahead_price_eur_mwh g) / real (length g)"
  from capture_row_cases [OF assms]
  have key: "(c_year row, c_month row) \<in> (\<lambda>r. (year r, month r)) ` set (rows (objs h df))"
    and eq: "row = capture_of (rows (objs h df)) (c_year row, c_month row)" by simp_all
  have ne: "g \<noteq> []" unfolding g_def using key by (rule month_rows_nonempty)
  have base: "baseload_price row = Num b"
    using ne by (subst eq) (simp add: capture_of_def Let_def g_def [symmetric] series_mean_def b_def)
  obtain k where rk: "row = capture_of (rows (objs h df)) k"
    using eq by blast
  have rate: "capture_rate row = fdiv (pv_price row) (baseload_price row)"
    unfolding rk by (simp add: capture_of_def Let_def)
  have one: "capture_rate row = Num 1 \<longleftrightarrow> pv_price row = baseload_price row \<and> b \<noteq> 0"
    by (simp add: rate base fdiv_Num_one)
  have zero: "b = 0 \<longrightarrow> capture_rate row =
               (case pv_price row of
                  Num a \<Rightarrow> if 0 < a then PInf else if a < 0 then NInf else NaN
                | PInf \<Rightarrow> PInf | NInf \<Rightarrow> NInf | NaN \<Rightarrow> NaN)"
    by (simp add: rate base fdiv_Num_zero)
  have fin: "b \<noteq> 0 \<longrightarrow> (\<forall>a. pv_price row = Num a \<longrightarrow> capture_rate row = Num (a / b))"
    by (simp add: rate base)
  show ?thesis
    unfolding Let_def g_def [symmetric] b_def [symmetric]
    using ne base rate one zero fin by blast
qed

theorem capture_rate_formula_witness:
  "map capture_rate (fst (calculate_capture_prices ex_capture 0)) = [Num (124 / 143), NaN, Num 1]"
proof -
  let ?rs = "rows (objs ex_capture 0)"
  let ?a = "capture_of ?rs (2024, 1)" and ?b = "capture_of ?rs (2024, 2)"
    and ?c = "capture_of ?rs (2024, 3)"
  have keys: "c_year ?a = 2024" "c_month ?a = 1" "c_year ?b = 2024" "c_month ?b = 2"
    "c_year ?c = 2024" "c_month ?c = 3"
    by (simp_all add: capture_of_def Let_def)
  have g1: "sum_list (map day_ahead_price_eur_mwh (month_rows 2024 1 ?rs)) = 26"
    "length (month_rows 2024 1 ?rs) = 4"
    by (simp_all add: ex_capture_rows month_rows_def derive_def hour_def)
  have g3: "sum_list (map day_ahead_price_eur_mwh (month_rows 2024 3 ?rs)) = - 3"
    "length (month_rows 2024 3 ?rs) = 1"
    by (simp_all add: ex_capture_rows month_rows_def derive_def hour_def)
  have pa: "pv_price ?a = Num (62 / 11)"
    by (simp add: ex_capture_rows capture_of_def Let_def month_rows_def solar_total_def
          revenue_total_def derive_def hour_def)
  have pb: "pv_price ?b = NaN"
    by (simp add: ex_capture_rows capture_of_def Let_def month_rows_def solar_total_def
          revenue_total_def derive_def hour_def)
  have pc: "pv_price ?c = Num (- 3)"
    by (simp add: ex_capture_rows capture_of_def Let_def month_rows_def solar_total_def
          revenue_total_def derive_def hour_def)
  from capture_rate_formula [OF ex_capture_third, unfolded Let_def keys g3]
  have "capture_rate ?c = Num 1 \<longleftrightarrow> pv_price ?c = baseload_price ?c \<and> (- 3 / real 1) \<noteq> (0::real)"
    and "baseload_price ?c = Num (- 3 / real 1)"
    by blast+
  with pc have c: "capture_rate ?c = Num 1" by simp
  from capture_rate_formula [OF ex_capture_first, unfolded Let_def keys g1]
  have "(26 / real 4) \<noteq> (0::real) \<longrightarrow>
        (pv_price ?a = Num (62 / 11) \<longrightarrow> capture_rate ?a = Num ((62 / 11) / (26 / real 4)))"
    by blast
  with pa have a: "capture_rate ?a = Num (124 / 143)" by simp
  from capture_rate_formula [OF ex_capture_second, unfolded Let_def keys]
  have "capture_rate ?b = fdiv (pv_price ?b) (baseload_price ?b)"
    by blast
  then have b: "capture_rate ?b = NaN" by (simp add: pb)
  show ?thesis
    by (simp only: ex_capture_table list.map a b c)
qed



section \<open>The yearly overview\<close>

lemma sorted_group_keys: "sorted (group_keys key rs)"
  by (simp add: group_keys_def)

lemma sort_remdups_same:
  assumes "set xs = set (group_keys key rs)"
  shows "sort (remdups xs) = group_keys key rs"
  by (rule sorted_distinct_set_unique)
     (simp_all add: assms sorted_group_keys distinct_group_keys)

lemma yearly_table:
  "fst (yearly_overview h df) =
   map (yearly_of (rows (objs h df))) (group_keys year (rows (objs h df)))"
proof -
  define rs where "rs = rows (objs h df)"
  define f where "f = (\<lambda>r::hourly. solar_mw_avg r * day_ahead_price_eur_mwh r)"
  define t where "t = map (\<lambda>r. (r, f r)) rs"
  define ks where "ks = group_keys year rs"
  define kp where "kp = group_keys year (nonneg_price rs)"
  have t: "with_revenue (objs (set_solar_revenue (snd (df_copy h df)) (fst (df_copy h df))
             (map f (rows (objs (snd (df_copy h df)) (fst (df_copy h df))))))
             (fst (df_copy h df))) = t"
    unfolding t_def rs_def by (rule revenue_frame)
  have pos: "filter (\<lambda>(r, v). day_ahead_price_eur_mwh r \<ge> 0) t
             = map (\<lambda>r. (r, f r)) (nonneg_price rs)"
    by (simp add: t_def nonneg_price_def filter_map comp_def)
  have ks: "group_keys (\<lambda>(r, v). year r) t = ks"
    by (simp add: t_def ks_def group_keys_map comp_def)
  have grouped:
    "map (\<lambda>(k, g). (k, series_sum (map (solar_mw_avg \<circ> fst) g), series_sum (map snd g),
                       series_mean (map (day_ahead_price_eur_mwh \<circ> fst) g)))
       (groupby (\<lambda>(r, v). year r) t)
     = map (\<lambda>k. (k, Num (solar_total (year_rows k rs)),
                    Num (revenue_total (year_rows k rs)),
                    series_mean (map day_ahead_price_eur_mwh (year_rows k rs)))) ks"
    apply (simp add: groupby_def ks comp_def)
    apply (simp add: t_def filter_map comp_def series_sum_def solar_total_def
             revenue_total_def year_rows_def f_def)
    done
  have kpos: "group_keys (\<lambda>(r, v). year r) (map (\<lambda>r. (r, f r)) (nonneg_price rs)) = kp"
    by (simp add: group_keys_map comp_def kp_def)
  have posg:
    "map (\<lambda>(k, g). (k, series_sum (map (solar_mw_avg \<circ> fst) g), series_sum (map snd g)))
       (groupby (\<lambda>(r, v). year r) (filter (\<lambda>(r, v). day_ahead_price_eur_mwh r \<ge> 0) t))
     = map (\<lambda>k. (k, Num (solar_total (nonneg_price (year_rows k rs))),
                    Num (revenue_total (nonneg_price (year_rows k rs))))) kp"
    apply (simp add: pos groupby_def kpos comp_def)
    apply (simp add: filter_map comp_def series_sum_def solar_total_def revenue_total_def
             year_rows_def nonneg_price_def f_def conj_commute)
    done
  have mem: "k \<in> set kp \<longleftrightarrow> nonneg_price (year_rows k rs) \<noteq> []" for k
    by (force simp: kp_def set_group_keys nonneg_price_def year_rows_def filter_empty_conv image_iff)
  have sub: "set kp \<subseteq> set ks"
    by (auto simp: kp_def ks_def set_group_keys nonneg_price_def)
  have index: "sort (remdups (ks @ kp @ ks)) = ks"
    unfolding ks_def by (rule sort_remdups_same) (use sub in \<open>auto simp: ks_def\<close>)
  note t' = t [unfolded f_def]
  note g' = grouped [unfolded split_def]
  note p' = posg [unfolded split_def]
  show ?thesis
    unfolding yearly_overview_def Let_def split_def fst_conv
    apply (simp only: t' g' p')
    apply (simp add: comp_def index at_year_def map_of_keyed mem)
    apply (simp add: yearly_of_def Let_def rs_def ks_def)
    done
qed

lemma yearly_keys: "map y_year (fst (yearly_overview h df)) = group_keys year (rows (objs h df))"
  by (simp add: yearly_table comp_def yearly_of_def Let_def)

lemma year_rows_nonempty: "y \<in> year ` set rs \<Longrightarrow> year_rows y rs \<noteq> []"
  by (auto simp: year_rows_def filter_empty_conv)

lemma ex_year_rows:
  "rows (objs ex_year 0) = map derive [hour 2024 1 1 0 100 10 1, hour 2024 2 1 0 100 20 3]"
  by (simp add: ex_year_def rows_store_of)

lemma ex_year_yearly:
  "fst (yearly_overview ex_year 0) = [yearly_of (rows (objs ex_year 0)) 2024]"
proof -
  have "group_keys year (rows (objs ex_year 0)) = [2024]"
    by (simp add: ex_year_rows group_keys_def derive_def hour_def)
  then show ?thesis by (simp only: yearly_table list.map)
qed

lemma ex_year_monthly:
  "map pv_price (fst (calculate_capture_prices ex_year 0)) = [Num 10, Num 20]"
proof -
  have "group_keys (\<lambda>r. (year r, month r)) (rows (objs ex_year 0)) = [(2024, 1), (2024, 2)]"
    by (simp add: ex_year_rows group_keys_def derive_def hour_def less_eq_prod_def)
  then have "fst (calculate_capture_prices ex_year 0) =
      [capture_of (rows (objs ex_year 0)) (2024, 1), capture_of (rows (objs ex_year 0)) (2024, 2)]"
    by (simp only: capture_table list.map)
  then show ?thesis
    by (simp add: ex_year_rows capture_of_def Let_def month_rows_def solar_total_def
          revenue_total_def derive_def hour_def)
qed

lemma ex_year_pv:
  "y_pv_price (yearly_of (rows (objs ex_year 0)) 2024) = Num (35 / 2)"
  by (simp add: ex_year_rows yearly_of_def Let_def year_rows_def solar_total_def
        revenue_total_def derive_def hour_def)

lemma ex_year_mean: "nanmean [Num 10, Num 20] = Num 15"
  by (simp add: nanmean_def)

text \<open>
  C7. The yearly overview has exactly one row per year of the frame, and its
  \<open>PV Price\<close> is the float quotient of the revenue sum by the solar sum over all
  hourly rows of that year (their quotient when the solar sum is not 0). It is not the
  mean of the months' \<open>pv_price\<close>: there is a frame of one year whose yearly value
  differs from the mean of its monthly values.
\<close>

theorem yearly_pv_price_recomputed:
  "distinct (map y_year (fst (yearly_overview h df))) \<and>
   set (map y_year (fst (yearly_overview h df))) = year ` set (rows (objs h df)) \<and>
   (\<forall>row\<in>set (fst (yearly_overview h df)).
      (let g = year_rows (y_year row) (rows (objs h df))
       in g \<noteq> [] \<and>
          y_pv_price row = fdiv (Num (revenue_total g)) (Num (solar_total g)) \<and>
          (solar_total g \<noteq> 0 \<longrightarrow> y_pv_price row = Num (revenue_total g / solar_total g)))) \<and>
   (\<exists>h' df' y. map y_pv_price (fst (yearly_overview h' df')) = [y] \<and>
        y \<noteq> nanmean (map pv_price (fst (calculate_capture_prices h' df'))))"
proof (intro conjI ballI)
  show "distinct (map y_year (fst (yearly_overview h df)))"
    by (simp only: yearly_keys distinct_group_keys)
  show "set (map y_year (fst (yearly_overview h df))) = year ` set (rows (objs h df))"
    by (simp only: yearly_keys set_group_keys)
next
  fix row assume "row \<in> set (fst (yearly_overview h df))"
  then obtain y where y: "y \<in> year ` set (rows (objs h df))"
    and row: "row = yearly_of (rows (objs h df)) y"
    by (auto simp: yearly_table set_group_keys)
  have yy: "y_year row = y" by (simp add: row yearly_of_def Let_def)
  have ne: "year_rows y (rows (objs h df)) \<noteq> []" using y by (rule year_rows_nonempty)
  have pv: "y_pv_price row = fdiv (Num (revenue_total (year_rows y (rows (objs h df)))))
                                  (Num (solar_total (year_rows y (rows (objs h df)))))"
    by (simp add: row yearly_of_def Let_def)
  show "let g = year_rows (y_year row) (rows (objs h df))
        in g \<noteq> [] \<and>
           y_pv_price row = fdiv (Num (revenue_total g)) (Num (solar_total g)) \<and>
           (solar_total g \<noteq> 0 \<longrightarrow> y_pv_price row = Num (revenue_total g / solar_total g))"
    unfolding Let_def yy using ne pv by simp
next
  have a: "map y_pv_price (fst (yearly_overview ex_year 0)) = [Num (35 / 2)]"
    by (simp only: ex_year_yearly list.map ex_year_pv)
  have b: "Num (35 / 2) \<noteq> nanmean (map pv_price (fst (calculate_capture_prices ex_year 0)))"
    by (simp only: ex_year_monthly ex_year_mean) simp
  show "\<exists>h' df' y. map y_pv_price (fst (yearly_overview h' df')) = [y] \<and>
        y \<noteq> nanmean (map pv_price (fst (calculate_capture_prices h' df')))"
    by (intro exI [of _ ex_year] exI [of _ "0::nat"] exI [of _ "Num (35 / 2)"] conjI a b)
qed

theorem yearly_pv_price_recomputed_witness:
  "y_pv_price (yearly_of (rows (objs ex_year 0)) 2024) = Num (35 / 2) \<and>
   map y_pv_price (fst (yearly_overview ex_year 0)) = [Num (35 / 2)] \<and>
   nanmean (map pv_price (fst (calculate_capture_prices ex_year 0))) = Num 15"
proof -
  let ?rs = "rows (objs ex_year 0)"
  let ?r = "yearly_of ?rs 2024"
  have yy: "y_year ?r = 2024" by (simp add: yearly_of_def Let_def)
  have g: "solar_total (year_rows 2024 ?rs) = 4" "revenue_total (year_rows 2024 ?rs) = 70"
    by (simp_all add: ex_year_rows year_rows_def solar_total_def revenue_total_def derive_def hour_def)
  from yearly_pv_price_recomputed [of ex_year 0, THEN conjunct2, THEN conjunct2, THEN conjunct1]
  have "\<forall>row\<in>set [?r].
      (let g = year_rows (y_year row) ?rs
       in g \<noteq> [] \<and>
          y_pv_price row = fdiv (Num (revenue_total g)) (Num (solar_total g)) \<and>
          (solar_total g \<noteq> 0 \<longrightarrow> y_pv_price row = Num (revenue_total g / solar_total g)))"
    by (simp only: ex_year_yearly)
  then have "solar_total (year_rows 2024 ?rs) \<noteq> 0 \<longrightarrow>
      y_pv_price ?r = Num (revenue_total (year_rows 2024 ?rs) / solar_total (year_rows 2024 ?rs))"
    by (simp add: Let_def yy)
  then have a: "y_pv_price ?r = Num (35 / 2)" by (simp add: g)
  have b: "map y_pv_price (fst (yearly_overview ex_year 0)) = [Num (35 / 2)]"
    by (simp only: ex_year_yearly list.map a)
  have c: "nanmean (map pv_price (fst (calculate_capture_prices ex_year 0))) = Num 15"
    by (simp only: ex_year_monthly ex_year_mean)
  from a b c show ?thesis by simp
qed

section \<open>The monthly statistics\<close>

lemma apply_daily_spread_eq:
  "apply_daily_spread rs =
   map (\<lambda>k. (k, daily_spread (day_rows k rs))) (group_keys (\<lambda>r. (year r, month r, date r)) rs)"
  by (simp add: apply_daily_spread_def groupby_def comp_def day_rows_def)

lemma daily_spreads_eq:
  "daily_spreads rs =
     (if \<forall>k\<in>set (group_keys (\<lambda>r. (year r, month r, date r)) rs). daily_spread (day_rows k rs) = None
      then Inl TypeError
      else Inr (map (\<lambda>k. (k, spread_cell (day_rows k rs)))
                  (group_keys (\<lambda>r. (year r, month r, date r)) rs)))"
  by (simp add: daily_spreads_def apply_daily_spread_eq Let_def list_all_iff comp_def spread_cell_def)

lemma month_keys_of_days:
  "group_keys (\<lambda>((y, m, d), v). (y, m))
     (map (\<lambda>k. (k, F k)) (group_keys (\<lambda>r. (year r, month r, date r)) rs))
   = group_keys (\<lambda>r. (year r, month r)) rs"
proof -
  let ?xs = "map (\<lambda>((y, m, d), v). (y, m))
          (map (\<lambda>k. (k, F k)) (group_keys (\<lambda>r. (year r, month r, date r)) rs))"
  have "set ?xs = set (group_keys (\<lambda>r. (year r, month r)) rs)"
    by (force simp: set_group_keys image_iff)
  then have "sort (remdups ?xs) = group_keys (\<lambda>r. (year r, month r)) rs"
    by (rule sort_remdups_same)
  then show ?thesis
    by (simp only: group_keys_def [of "\<lambda>((y, m, d), v). (y, m)"])
qed


lemma merge_keyed:
  "set xs \<subseteq> S \<Longrightarrow>
   concat (map (\<lambda>(k, a). case (if k \<in> S then Some (G k) else None) of
                             None \<Rightarrow> [] | Some b \<Rightarrow> [(k, a, b)])
             (map (\<lambda>k. (k, F k)) xs))
   = map (\<lambda>k. (k, F k, G k)) xs"
  by (induction xs) auto

lemma stats_table:
  "calculate_monthly_stats h df =
     ((if \<forall>k\<in>set (group_keys (\<lambda>r. (year r, month r, date r)) (rows (objs h df))).
             daily_spread (day_rows k (rows (objs h df))) = None
       then Inl TypeError
       else Inr (map (stats_of (rows (objs h df)))
                   (group_keys (\<lambda>r. (year r, month r)) (rows (objs h df))))), h)"
proof (cases "\<forall>k\<in>set (group_keys (\<lambda>r. (year r, month r, date r)) (rows (objs h df))).
             daily_spread (day_rows k (rows (objs h df))) = None")
  case True
  then show ?thesis
    by (simp add: calculate_monthly_stats_def daily_spreads_eq)
next
  case False
  define rs where "rs = rows (objs h df)"
  define K3 where "K3 = group_keys (\<lambda>r. (year r, month r, date r)) rs"
  define KS where "KS = group_keys (\<lambda>r. (year r, month r)) rs"
  define sp where "sp = map (\<lambda>k. (k, spread_cell (day_rows k rs))) K3"
  have ds: "daily_spreads rs = Inr sp"
    using False by (simp add: daily_spreads_eq rs_def sp_def K3_def)
  have keys: "group_keys (\<lambda>((y, m, d), v). (y, m)) sp = KS"
    unfolding sp_def K3_def KS_def by (rule month_keys_of_days)
  have grp: "map snd (filter (\<lambda>e. (fst (fst e), fst (snd (fst e))) = k) sp)
             = map (\<lambda>d. spread_cell (day_rows d rs)) (month_days (fst k) (snd k) rs)" for k
    by (cases k)
       (simp add: sp_def filter_map comp_def month_days_def K3_def split_def prod_eq_iff)
  have right: "map (\<lambda>(k, g). (k, nanmean (map snd g))) (groupby (\<lambda>((y, m, d), v). (y, m)) sp)
        = map (\<lambda>k. (k, nanmean (map (\<lambda>d. spread_cell (day_rows d rs))
                                    (month_days (fst k) (snd k) rs)))) KS"
    by (simp add: groupby_def keys [unfolded split_def] comp_def split_def grp)
  have left: "map (\<lambda>(k, g). (k, monthly_agg g)) (groupby (\<lambda>r. (year r, month r)) rs)
        = map (\<lambda>k. (k, monthly_agg (month_rows (fst k) (snd k) rs))) KS"
    by (simp add: groupby_def KS_def comp_def month_rows_def prod_eq_iff)
  have dist: "distinct (map fst
        (map (\<lambda>k. (k, nanmean (map (\<lambda>d. spread_cell (day_rows d rs))
                                    (month_days (fst k) (snd k) rs)))) KS))"
    by (simp add: comp_def KS_def distinct_group_keys)
  have merged: "merge_inner
        (map (\<lambda>k. (k, monthly_agg (month_rows (fst k) (snd k) rs))) KS)
        (map (\<lambda>k. (k, nanmean (map (\<lambda>d. spread_cell (day_rows d rs))
                                    (month_days (fst k) (snd k) rs)))) KS)
      = map (\<lambda>k. (k, monthly_agg (month_rows (fst k) (snd k) rs),
                      nanmean (map (\<lambda>d. spread_cell (day_rows d rs))
                                    (month_days (fst k) (snd k) rs)))) KS"
    by (simp only: merge_inner_distinct [OF dist] map_of_keyed) (rule merge_keyed, simp)
  have "calculate_monthly_stats h df = (Inr (map (stats_of rs) KS), h)"
    unfolding calculate_monthly_stats_def rs_def [symmetric] ds
    apply (simp only: sum.case Let_def left right merged)
    apply (simp add: stats_of_def Let_def split_def comp_def)
    done
  with False show ?thesis by (simp add: rs_def KS_def)
qed

lemma fsub_Num: "fsub (Num a) (Num b) = Num (a - b)"
  by (simp add: fsub_def)

lemma series_mean_four: "length xs = 4 \<Longrightarrow> series_mean xs = Num (sum_list xs / 4)"
  by (auto simp: series_mean_def)

lemma daily_spread_value:
  assumes "8 \<le> length g"
  shows "daily_spread g =
     Some (Num (sum_list (drop (length g - 4) (sort (map day_ahead_price_eur_mwh g))) / 4 -
                sum_list (take 4 (sort (map day_ahead_price_eur_mwh g))) / 4))"
  using assms by (simp add: daily_spread_def Let_def series_mean_four fsub_Num)

lemma daily_spread_short: "length g < 8 \<Longrightarrow> daily_spread g = None"
  by (simp add: daily_spread_def Let_def)

lemma sorted_three_parts:
  assumes "sorted s" and "8 \<le> length s"
  shows "s = take 4 s @ take (length s - 8) (drop 4 s) @ drop (length s - 4) s \<and>
         (\<forall>x\<in>set (take 4 s). \<forall>y\<in>set (take (length s - 8) (drop 4 s) @ drop (length s - 4) s). x \<le> y) \<and>
         (\<forall>x\<in>set (drop (length s - 4) s).
            \<forall>y\<in>set (take 4 s @ take (length s - 8) (drop 4 s)). y \<le> x)"
proof -
  let ?lo = "take 4 s" and ?mid = "take (length s - 8) (drop 4 s)" and ?hi = "drop (length s - 4) s"
  have "drop (length s - 8) (drop 4 s) = ?hi"
    using assms(2) by simp
  then have "drop 4 s = ?mid @ ?hi"
    by (metis append_take_drop_id)
  then have split: "s = ?lo @ ?mid @ ?hi"
    by (metis append_take_drop_id)
  from assms(1) have "sorted (?lo @ ?mid @ ?hi)"
    using split by simp
  then have a: "\<forall>x\<in>set ?lo. \<forall>y\<in>set (?mid @ ?hi). x \<le> y"
    and b: "\<forall>x\<in>set ?mid. \<forall>y\<in>set ?hi. x \<le> y"
    by (auto simp: sorted_append)
  from a b have c: "\<forall>x\<in>set ?hi. \<forall>y\<in>set (?lo @ ?mid). y \<le> x"
    by auto
  from split a c show ?thesis by blast
qed

text \<open>
  C1. For a day of the frame with at least 8 hourly rows, line 34 yields the table of
  daily spreads, and the day's spread in it is the mean of the 4 highest prices of the day
  minus the mean of the 4 lowest: the day's prices sorted ascending split into the first
  4, a middle part and the last 4, no price of the first 4 above any other and no price of
  the last 4 below any other. (For the prices 10, 20, ..., 80 the spread is 40.)
\<close>

theorem daily_spread_top4_minus_bottom4:
  assumes "8 \<le> length (day_rows k rs)"
  shows "\<exists>sp lo mid hi.
           daily_spreads rs = Inr sp \<and>
           sort (map day_ahead_price_eur_mwh (day_rows k rs)) = lo @ mid @ hi \<and>
           length lo = 4 \<and> length hi = 4 \<and>
           (\<forall>x\<in>set lo. \<forall>y\<in>set (mid @ hi). x \<le> y) \<and>
           (\<forall>x\<in>set hi. \<forall>y\<in>set (lo @ mid). y \<le> x) \<and>
           daily_spread (day_rows k rs) = Some (Num (sum_list hi / 4 - sum_list lo / 4)) \<and>
           map_of sp k = Some (Num (sum_list hi / 4 - sum_list lo / 4))"
proof -
  define g where "g = day_rows k rs"
  define s where "s = sort (map day_ahead_price_eur_mwh g)"
  define K3 where "K3 = group_keys (\<lambda>r. (year r, month r, date r)) rs"
  have len: "8 \<le> length s" "length s = length g"
    using assms by (simp_all add: s_def g_def)
  have val: "daily_spread g = Some (Num (sum_list (drop (length s - 4) s) / 4 - sum_list (take 4 s) / 4))"
    using assms daily_spread_value [of g] by (simp add: g_def s_def)
  from assms have "g \<noteq> []" by (auto simp: g_def)
  then have k: "k \<in> set K3"
    by (auto simp: g_def day_rows_def K3_def set_group_keys filter_empty_conv)
  with val have some: "\<not> (\<forall>k\<in>set K3. daily_spread (day_rows k rs) = None)"
    by (auto simp: g_def)
  define sp where "sp = map (\<lambda>k. (k, spread_cell (day_rows k rs))) K3"
  have ds: "daily_spreads rs = Inr sp"
    using some by (simp add: daily_spreads_eq K3_def sp_def)
  have entry: "map_of sp k = Some (Num (sum_list (drop (length s - 4) s) / 4 - sum_list (take 4 s) / 4))"
    using k val by (simp add: sp_def map_of_keyed spread_cell_def g_def)
  have parts: "s = take 4 s @ take (length s - 8) (drop 4 s) @ drop (length s - 4) s \<and>
         (\<forall>x\<in>set (take 4 s). \<forall>y\<in>set (take (length s - 8) (drop 4 s) @ drop (length s - 4) s). x \<le> y) \<and>
         (\<forall>x\<in>set (drop (length s - 4) s).
            \<forall>y\<in>set (take 4 s @ take (length s - 8) (drop 4 s)). y \<le> x)"
    by (rule sorted_three_parts [OF _ len(1)]) (simp add: s_def)
  have l4: "length (take 4 s) = 4" "length (drop (length s - 4) s) = 4"
    using len by simp_all
  show ?thesis
    apply (rule exI [of _ sp])
    apply (rule exI [of _ "take 4 s"])
    apply (rule exI [of _ "take (length s - 8) (drop 4 s)"])
    apply (rule exI [of _ "drop (length s - 4) s"])
    using ds parts l4 val entry unfolding g_def [symmetric] s_def [symmetric]
    apply (intro conjI)
    apply (simp_all only:)
    apply blast+
    done
qed

lemma ex_day_rows:
  "day_rows (2024, 1, (2024, 1, 1)) (map derive ex_day) = map derive ex_day"
  by (simp add: day_rows_def ex_day_def derive_def hour_def)

lemma ex_day_prices:
  "map day_ahead_price_eur_mwh (map derive ex_day) = [30, 10, 80, 20, 50, 40, 70, 60]"
  by (simp add: ex_day_def derive_def hour_def)

lemma ex_day_sorted:
  "sort (map day_ahead_price_eur_mwh (map derive ex_day)) = [10, 20, 30, 40, 50, 60, 70, 80]"
  by (simp only: ex_day_prices) simp


theorem daily_spread_top4_minus_bottom4_witness:
  "daily_spread (map derive ex_day) = Some (Num 40) \<and>
   (\<exists>sp. daily_spreads (map derive ex_day) = Inr sp \<and>
         map_of sp (2024, 1, (2024, 1, 1)) = Some (Num 40))"
proof -
  let ?k = "(2024, 1, (2024, 1, 1)) :: int \<times> int \<times> date"
  let ?s = "[10, 20, 30, 40, 50, 60, 70, 80] :: real list"
  have "8 \<le> length (day_rows ?k (map derive ex_day))"
    by (simp only: ex_day_rows) (simp add: ex_day_def)
  from daily_spread_top4_minus_bottom4 [OF this]
  obtain sp lo mid hi where sp: "daily_spreads (map derive ex_day) = Inr sp"
    and parts: "?s = lo @ mid @ hi"
    and len: "length lo = 4" "length hi = 4"
    and val: "daily_spread (map derive ex_day) = Some (Num (sum_list hi / 4 - sum_list lo / 4))"
    and entry: "map_of sp ?k = Some (Num (sum_list hi / 4 - sum_list lo / 4))"
    unfolding ex_day_rows ex_day_sorted by blast
  from parts have "take 4 ?s = take 4 lo @ take (4 - length lo) (mid @ hi)"
    by (simp only: take_append)
  with len have lo: "lo = [10, 20, 30, 40]" by simp
  have "length ?s = length lo + length mid + length hi"
    by (simp only: parts length_append add.assoc)
  with len have "mid = []" by simp
  with parts lo have hi: "hi = [50, 60, 70, 80]" by simp
  from val entry sp show ?thesis
    by (simp add: lo hi)
qed

lemma stats_rows:
  assumes "fst (calculate_monthly_stats h df) = Inr tbl"
  shows "tbl = map (stats_of (rows (objs h df))) (group_keys (\<lambda>r. (year r, month r)) (rows (objs h df)))"
  using assms by (simp add: stats_table split: if_splits)

lemma stats_keys:
  assumes "fst (calculate_monthly_stats h df) = Inr tbl"
  shows "map (\<lambda>row. (s_year row, s_month row)) tbl =
         group_keys (\<lambda>r. (year r, month r)) (rows (objs h df))"
  by (simp add: stats_rows [OF assms] comp_def stats_of_def Let_def split_def)

lemma stats_row_cases:
  assumes "fst (calculate_monthly_stats h df) = Inr tbl" and "row \<in> set tbl"
  shows "\<exists>k. k \<in> (\<lambda>r. (year r, month r)) ` set (rows (objs h df)) \<and>
             k = (s_year row, s_month row) \<and> row = stats_of (rows (objs h df)) k"
proof -
  from assms obtain k where k: "k \<in> set (group_keys (\<lambda>r. (year r, month r)) (rows (objs h df)))"
    and row: "row = stats_of (rows (objs h df)) k"
    by (auto simp: stats_rows [OF assms(1)])
  have "k = (s_year row, s_month row)"
    by (simp add: row stats_of_def Let_def split_def)
  moreover from k have "k \<in> (\<lambda>r. (year r, month r)) ` set (rows (objs h df))"
    by (simp only: set_group_keys)
  ultimately show ?thesis using row by blast
qed

lemma stats_returns:
  assumes "8 \<le> length (day_rows k (rows (objs h df)))"
  shows "\<exists>tbl. fst (calculate_monthly_stats h df) = Inr tbl"
proof -
  from assms have ne: "day_rows k (rows (objs h df)) \<noteq> []" by auto
  then have "k \<in> set (group_keys (\<lambda>r. (year r, month r, date r)) (rows (objs h df)))"
    by (auto simp: day_rows_def set_group_keys filter_empty_conv)
  moreover have "daily_spread (day_rows k (rows (objs h df))) \<noteq> None"
    using daily_spread_value [OF assms] by simp
  ultimately show ?thesis
    by (auto simp: stats_table)
qed

text \<open>
  C3. When the aggregator returns its table, the table has a row for every (year, month)
  of the frame; in the row of a month, \<open>avg_price_res_neg\<close> is undefined (NaN, and so
  not 0) when no row of the month has a residual load below 0 and the mean price of those
  rows otherwise, \<open>avg_price_res_high\<close> likewise for a residual load above 60000,
  and the row still carries the month's mean price and its count of negative-price hours.
\<close>

theorem filtered_means_undefined_when_empty:
  assumes "fst (calculate_monthly_stats h df) = Inr tbl" and "row \<in> set tbl"
  shows "set (map (\<lambda>r. (s_year r, s_month r)) tbl) =
           (\<lambda>r. (year r, month r)) ` set (rows (objs h df)) \<and>
         (let g = month_rows (s_year row) (s_month row) (rows (objs h df));
             neg = filter (\<lambda>r. residual_load_mw_avg r < 0) g;
             high = filter (\<lambda>r. residual_load_mw_avg r > 60000) g
         in g \<noteq> [] \<and>
            (neg = [] \<longrightarrow> avg_price_res_neg row = NaN \<and> avg_price_res_neg row \<noteq> Num 0) \<and>
            (neg \<noteq> [] \<longrightarrow> avg_price_res_neg row =
               Num (sum_list (map day_ahead_price_eur_mwh neg) / real (length neg))) \<and>
            (high = [] \<longrightarrow> avg_price_res_high row = NaN \<and> avg_price_res_high row \<noteq> Num 0) \<and>
            (high \<noteq> [] \<longrightarrow> avg_price_res_high row =
               Num (sum_list (map day_ahead_price_eur_mwh high) / real (length high))) \<and>
            avg_price row = Num (sum_list (map day_ahead_price_eur_mwh g) / real (length g)) \<and>
            neg_hours row = length (filter (\<lambda>r. day_ahead_price_eur_mwh r < 0) g))"
proof -
  from stats_row_cases [OF assms] obtain k
    where k: "k \<in> (\<lambda>r. (year r, month r)) ` set (rows (objs h df))"
      and key: "k = (s_year row, s_month row)"
      and row: "row = stats_of (rows (objs h df)) k"
    by blast
  have ne: "month_rows (fst k) (snd k) (rows (objs h df)) \<noteq> []"
    using k by (cases k) (simp add: month_rows_nonempty)
  have ky: "s_year row = fst k" "s_month row = snd k" using key by simp_all
  have keys: "set (map (\<lambda>r. (s_year r, s_month r)) tbl) =
           (\<lambda>r. (year r, month r)) ` set (rows (objs h df))"
    by (simp only: stats_keys [OF assms(1)] set_group_keys)
  have fields: "let g = month_rows (s_year row) (s_month row) (rows (objs h df));
             neg = filter (\<lambda>r. residual_load_mw_avg r < 0) g;
             high = filter (\<lambda>r. residual_load_mw_avg r > 60000) g
         in g \<noteq> [] \<and>
            (neg = [] \<longrightarrow> avg_price_res_neg row = NaN \<and> avg_price_res_neg row \<noteq> Num 0) \<and>
            (neg \<noteq> [] \<longrightarrow> avg_price_res_neg row =
               Num (sum_list (map day_ahead_price_eur_mwh neg) / real (length neg))) \<and>
            (high = [] \<longrightarrow> avg_price_res_high row = NaN \<and> avg_price_res_high row \<noteq> Num 0) \<and>
            (high \<noteq> [] \<longrightarrow> avg_price_res_high row =
               Num (sum_list (map day_ahead_price_eur_mwh high) / real (length high))) \<and>
            avg_price row = Num (sum_list (map day_ahead_price_eur_mwh g) / real (length g)) \<and>
            neg_hours row = length (filter (\<lambda>r. day_ahead_price_eur_mwh r < 0) g)"
    unfolding Let_def ky using ne
    by (simp add: row stats_of_def Let_def split_def monthly_agg_def series_mean_def)
  from keys fields show ?thesis by (rule conjI)
qed


lemma ex_stats_rows:
  "rows (objs ex_stats 0) = map derive (ex_day @ [hour 2024 2 1 0 (- 5) (- 12) 0])"
  by (simp add: ex_stats_def rows_store_of)

lemma ex_stats_full_day: "8 \<le> length (day_rows (2024, 1, (2024, 1, 1)) (rows (objs ex_stats 0)))"
  by (simp add: ex_stats_rows day_rows_def ex_day_def derive_def hour_def)

lemma ex_stats_keys:
  "group_keys (\<lambda>r. (year r, month r)) (rows (objs ex_stats 0)) = [(2024, 1), (2024, 2)]"
  by (simp add: ex_stats_rows group_keys_def ex_day_def derive_def hour_def less_eq_prod_def)

lemma ex_stats_table:
  "fst (calculate_monthly_stats ex_stats 0) =
     Inr [stats_of (rows (objs ex_stats 0)) (2024, 1), stats_of (rows (objs ex_stats 0)) (2024, 2)]"
proof -
  from stats_returns [OF ex_stats_full_day]
  obtain tbl where tbl: "fst (calculate_monthly_stats ex_stats 0) = Inr tbl" by blast
  from stats_rows [OF tbl] show ?thesis
    by (simp only: tbl ex_stats_keys list.map)
qed

lemma ex_stats_months:
  "month_rows 2024 1 (rows (objs ex_stats 0)) = map derive ex_day"
  "month_rows 2024 2 (rows (objs ex_stats 0)) = [derive (hour 2024 2 1 0 (- 5) (- 12) 0)]"
  by (simp_all add: ex_stats_rows month_rows_def ex_day_def derive_def hour_def)

theorem filtered_means_undefined_when_empty_witness:
  "fst (calculate_monthly_stats ex_stats 0) =
     Inr [stats_of (rows (objs ex_stats 0)) (2024, 1), stats_of (rows (objs ex_stats 0)) (2024, 2)] \<and>
   avg_price_res_neg (stats_of (rows (objs ex_stats 0)) (2024, 1)) = NaN \<and>
   avg_price_res_high (stats_of (rows (objs ex_stats 0)) (2024, 1)) = Num 30 \<and>
   avg_price (stats_of (rows (objs ex_stats 0)) (2024, 1)) = Num 45 \<and>
   neg_hours (stats_of (rows (objs ex_stats 0)) (2024, 1)) = 0 \<and>
   avg_price_res_neg (stats_of (rows (objs ex_stats 0)) (2024, 2)) = Num (- 12) \<and>
   avg_price_res_high (stats_of (rows (objs ex_stats 0)) (2024, 2)) = NaN \<and>
   neg_hours (stats_of (rows (objs ex_stats 0)) (2024, 2)) = 1"
proof -
  let ?rs = "rows (objs ex_stats 0)"
  let ?a = "stats_of ?rs (2024, 1)" and ?b = "stats_of ?rs (2024, 2)"
  have keys: "s_year ?a = 2024" "s_month ?a = 1" "s_year ?b = 2024" "s_month ?b = 2"
    by (simp_all add: stats_of_def Let_def split_def)
  have ma: "?a \<in> set [?a, ?b]" and mb: "?b \<in> set [?a, ?b]" by simp_all
  note A = filtered_means_undefined_when_empty [OF ex_stats_table ma, THEN conjunct2,
      unfolded Let_def keys ex_stats_months]
  note B = filtered_means_undefined_when_empty [OF ex_stats_table mb, THEN conjunct2,
      unfolded Let_def keys ex_stats_months]
  have fa: "filter (\<lambda>r. residual_load_mw_avg r < 0) (map derive ex_day) = []"
    "filter (\<lambda>r. residual_load_mw_avg r > 60000) (map derive ex_day) = [derive (hour 2024 1 1 0 70000 30 0)]"
    "filter (\<lambda>r. day_ahead_price_eur_mwh r < 0) (map derive ex_day) = []"
    by (simp_all add: ex_day_def derive_def hour_def)
  have sa: "sum_list (map day_ahead_price_eur_mwh (map derive ex_day)) = 360"
    "length (map derive ex_day) = 8"
    by (simp_all add: ex_day_def derive_def hour_def)
  from A have a: "avg_price_res_neg ?a = NaN" "avg_price_res_high ?a = Num 30"
    "avg_price ?a = Num 45" "neg_hours ?a = 0"
    unfolding fa sa by (simp_all add: derive_def hour_def)
  from B have b: "avg_price_res_neg ?b = Num (- 12)" "avg_price_res_high ?b = NaN"
    "neg_hours ?b = 1"
    by (simp_all add: derive_def hour_def)
  show ?thesis by (intro conjI ex_stats_table a b)
qed


text \<open>
  C2. On a frame none of whose days has 8 hourly rows (here a single hour, in February
  2024), the aggregator does not return a table in which \<open>avg_spread\<close> of the month
  is undefined: it raises TypeError at line 34.
\<close>

theorem monthly_stats_raises_without_full_day:
  "fst (calculate_monthly_stats ex_short 0) = Inl TypeError"
proof -
  have "length (rows (objs ex_short 0)) < 8"
    by (simp add: ex_short_def rows_store_of)
  then have "length (day_rows k (rows (objs ex_short 0))) < 8" for k
    unfolding day_rows_def
    by (rule le_less_trans [OF length_filter_le])
  then have "daily_spread (day_rows k (rows (objs ex_short 0))) = None" for k
    by (rule daily_spread_short)
  then show ?thesis
    by (simp add: stats_table)
qed

lemma foldl_fadd_Num: "foldl fadd (Num a) (map Num xs) = Num (a + sum_list xs)"
  by (induction xs arbitrary: a) (simp_all add: add.assoc)

lemma nanmean_of_numbers:
  assumes "\<forall>c\<in>set cs. c = NaN \<or> (\<exists>x. c = Num x)"
  shows "nanmean cs = series_mean (concat (map (\<lambda>c. case c of Num x \<Rightarrow> [x] | _ \<Rightarrow> []) cs))"
proof -
  let ?xs = "concat (map (\<lambda>c. case c of Num x \<Rightarrow> [x] | _ \<Rightarrow> []) cs)"
  from assms have "filter (\<lambda>c. c \<noteq> NaN) cs = map Num ?xs"
    by (induction cs) auto
  then show ?thesis
    by (simp add: nanmean_def Let_def foldl_fadd_Num series_mean_def)
qed

lemma spread_cell_cases: "spread_cell g = NaN \<or> (\<exists>x. spread_cell g = Num x)"
  by (simp add: spread_cell_def daily_spread_def Let_def series_mean_def fsub_def)


text \<open>
  When the aggregator returns its table, \<open>avg_spread\<close> of a month is the mean of
  the spreads of those days of the month that have one (the days with at least 8 rows),
  and NaN when the month has no such day.
\<close>

lemma avg_spread_mean_of_defined:
  assumes "fst (calculate_monthly_stats h df) = Inr tbl" and "row \<in> set tbl"
  shows "avg_spread row =
     series_mean (concat (map
       (\<lambda>d. case daily_spread (day_rows d (rows (objs h df))) of Some (Num x) \<Rightarrow> [x] | _ \<Rightarrow> [])
       (month_days (s_year row) (s_month row) (rows (objs h df)))))"
proof -
  let ?rs = "rows (objs h df)"
  from stats_row_cases [OF assms] obtain k
    where key: "k = (s_year row, s_month row)" and row: "row = stats_of ?rs k"
    by blast
  let ?days = "month_days (s_year row) (s_month row) ?rs"
  have "avg_spread row = nanmean (map (\<lambda>d. spread_cell (day_rows d ?rs)) ?days)"
    by (subst row) (simp add: stats_of_def Let_def split_def key)
  also have "\<dots> = series_mean (concat (map (\<lambda>c. case c of Num x \<Rightarrow> [x] | _ \<Rightarrow> [])
                        (map (\<lambda>d. spread_cell (day_rows d ?rs)) ?days)))"
    by (rule nanmean_of_numbers) (use spread_cell_cases in auto)
  also have "(map (\<lambda>c. case c of Num x \<Rightarrow> [x] | _ \<Rightarrow> [])
                        (map (\<lambda>d. spread_cell (day_rows d ?rs)) ?days))
      = map (\<lambda>d. case daily_spread (day_rows d ?rs) of Some (Num x) \<Rightarrow> [x] | _ \<Rightarrow> []) ?days"
    by (simp add: spread_cell_def split: option.splits cell.splits)
  finally show ?thesis .
qed

section \<open>The aggregators and the store\<close>

lemma capture_store:
  "snd (calculate_capture_prices h df) =
     h\<lparr>objs := (objs h)(fresh h := (objs h df)\<lparr>solar_revenue :=
                   Some (map (\<lambda>r. solar_mw_avg r * day_ahead_price_eur_mwh r) (rows (objs h df)))\<rparr>),
       fresh := Suc (fresh h)\<rparr>"
  by (simp add: calculate_capture_prices_def df_copy_def alloc_def set_solar_revenue_def
        Let_def split_def)

lemma stats_store: "snd (calculate_monthly_stats h df) = h"
  by (simp add: stats_table)

lemma pure_results:
  fixes h h2 :: heap and df df2 :: ref
  assumes e: "objs h2 df2 = objs h df"
  shows "fst (calculate_monthly_stats h2 df2) = fst (calculate_monthly_stats h df) \<and>
         fst (calculate_capture_prices h2 df2) = fst (calculate_capture_prices h df)"
proof
  show "fst (calculate_monthly_stats h2 df2) = fst (calculate_monthly_stats h df)"
    unfolding stats_table fst_conv e ..
  show "fst (calculate_capture_prices h2 df2) = fst (calculate_capture_prices h df)"
    unfolding capture_table e ..
qed

lemma frame_part:
  assumes "df < fresh h"
  shows "objs (snd (calculate_capture_prices h df)) df = objs h df \<and>
         (\<forall>p. p < fresh h \<longrightarrow> objs (snd (calculate_capture_prices h df)) p = objs h p) \<and>
         solar_revenue (objs (snd (calculate_capture_prices h df)) (fresh h)) =
           Some (map (\<lambda>r. solar_mw_avg r * day_ahead_price_eur_mwh r) (rows (objs h df)))"
  using assms by (simp add: capture_store)

text \<open>
  C9. For a frame \<open>df\<close> that is an object of the store, neither aggregator changes
  it: \<^verbatim>\<open>calculate_monthly_stats\<close> leaves the whole store as it is, and
  \<^verbatim>\<open>calculate_capture_prices\<close> leaves every object that existed before the call
  as it was (the rows of \<open>df\<close> and its columns, so also the absence of
  \<^verbatim>\<open>solar_revenue\<close>): the column is added to the copy, a new object. Both
  results depend on the content of the frame only.
\<close>

theorem aggregators_leave_source_unchanged:
  assumes "df < fresh h"
  shows "snd (calculate_monthly_stats h df) = h \<and>
         objs (snd (calculate_capture_prices h df)) df = objs h df \<and>
         (\<forall>p. p < fresh h \<longrightarrow> objs (snd (calculate_capture_prices h df)) p = objs h p) \<and>
         solar_revenue (objs (snd (calculate_capture_prices h df)) (fresh h)) =
           Some (map (\<lambda>r. solar_mw_avg r * day_ahead_price_eur_mwh r) (rows (objs h df))) \<and>
         (\<forall>h2 df2. objs h2 df2 = objs h df \<longrightarrow>
            fst (calculate_monthly_stats h2 df2) = fst (calculate_monthly_stats h df) \<and>
            fst (calculate_capture_prices h2 df2) = fst (calculate_capture_prices h df))"
proof (intro conjI allI impI)
  show "snd (calculate_monthly_stats h df) = h" by (rule stats_store)
  show "objs (snd (calculate_capture_prices h df)) df = objs h df"
    using frame_part [OF assms] by (rule conjunct1)
  show "objs (snd (calculate_capture_prices h df)) p = objs h p" if "p < fresh h" for p
    using that by (simp add: capture_store)
  show "solar_revenue (objs (snd (calculate_capture_prices h df)) (fresh h)) =
           Some (map (\<lambda>r. solar_mw_avg r * day_ahead_price_eur_mwh r) (rows (objs h df)))"
    by (simp add: capture_store)
  show "fst (calculate_monthly_stats h2 df2) = fst (calculate_monthly_stats h df)"
    if "objs h2 df2 = objs h df" for h2 df2
    using pure_results [OF that] by (rule conjunct1)
  show "fst (calculate_capture_prices h2 df2) = fst (calculate_capture_prices h df)"
    if "objs h2 df2 = objs h df" for h2 df2
    using pure_results [OF that] by (rule conjunct2)
qed

theorem aggregators_leave_source_unchanged_witness:
  "objs (snd (calculate_capture_prices ex_capture 0)) 0 = objs ex_capture 0 \<and>
   solar_revenue (objs ex_capture 0) = None \<and>
   solar_revenue (objs (snd (calculate_capture_prices ex_capture 0)) 0) = None \<and>
   solar_revenue (objs (snd (calculate_capture_prices ex_capture 0)) 1) = Some [10, 60, - 8, 0, 0, - 6] \<and>
   snd (calculate_monthly_stats ex_capture 0) = ex_capture"
proof -
  have f: "fresh ex_capture = 1" by (simp add: ex_capture_def store_of_def)
  then have lt: "0 < fresh ex_capture" by simp
  note t = aggregators_leave_source_unchanged [OF lt, unfolded f]
  have n: "solar_revenue (objs ex_capture 0) = None"
    by (simp add: ex_capture_def store_of_def)
  have v: "map (\<lambda>r. solar_mw_avg r * day_ahead_price_eur_mwh r) (rows (objs ex_capture 0))
           = [10, 60, - 8, 0, 0, - 6]"
    by (simp add: ex_capture_rows derive_def hour_def)
  have d: "snd (calculate_monthly_stats ex_capture 0) = ex_capture"
    using t by (rule conjunct1)
  have a: "objs (snd (calculate_capture_prices ex_capture 0)) 0 = objs ex_capture 0"
    using t [THEN conjunct2] by (rule conjunct1)
  have c: "solar_revenue (objs (snd (calculate_capture_prices ex_capture 0)) 1) =
           Some (map (\<lambda>r. solar_mw_avg r * day_ahead_price_eur_mwh r) (rows (objs ex_capture 0)))"
    using t [THEN conjunct2, THEN conjunct2, THEN conjunct2] by (rule conjunct1)
  have b: "solar_revenue (objs (snd (calculate_capture_prices ex_capture 0)) 0) = None"
    by (simp only: a n)
  show ?thesis
    by (intro conjI a n b c [unfolded v] d)
qed

section \<open>The loader and the page\<close>

lemma ex_loaded_eq: "\<lparr>rows = map derive ex_csv, solar_revenue = None\<rparr> = ex_loaded"
  by (simp add: ex_csv_def ex_loaded_def derive_def hour_def)

text \<open>
  C8, as stated, fails: what \<^verbatim>\<open>load_data\<close> returns follows the file only on the
  call that fills the memo. After a first call without the file, a call with the file in
  place still returns the absent signal; after a first call with the file, a call without
  the file still returns a frame (a copy of the memoised one).
\<close>

theorem load_data_memo_counterexample:
  "load_data Map.empty None empty_heap = Inr (None, Some None, empty_heap) \<and>
   load_data [INPUT_FILE \<mapsto> Csv ex_csv] (Some None) empty_heap = Inr (None, Some None, empty_heap) \<and>
   load_data [INPUT_FILE \<mapsto> Csv ex_csv] None empty_heap =
     Inr (Some 0, Some (Some ex_loaded), snd (alloc empty_heap ex_loaded)) \<and>
   load_data Map.empty (Some (Some ex_loaded)) (snd (alloc empty_heap ex_loaded)) =
     Inr (Some 1, Some (Some ex_loaded), snd (alloc (snd (alloc empty_heap ex_loaded)) ex_loaded))"
proof (intro conjI)
  show "load_data Map.empty None empty_heap = Inr (None, Some None, empty_heap)"
    by (simp add: load_data_def load_data_body_def)
  show "load_data [INPUT_FILE \<mapsto> Csv ex_csv] (Some None) empty_heap = Inr (None, Some None, empty_heap)"
    by (simp add: load_data_def)
  show "load_data [INPUT_FILE \<mapsto> Csv ex_csv] None empty_heap =
     Inr (Some 0, Some (Some ex_loaded), snd (alloc empty_heap ex_loaded))"
    by (simp add: load_data_def load_data_body_def ex_loaded_eq Let_def)
       (simp add: alloc_def empty_heap_def)
  show "load_data Map.empty (Some (Some ex_loaded)) (snd (alloc empty_heap ex_loaded)) =
     Inr (Some 1, Some (Some ex_loaded), snd (alloc (snd (alloc empty_heap ex_loaded)) ex_loaded))"
    by (simp add: load_data_def Let_def) (simp add: alloc_def empty_heap_def)
qed

text \<open>
  C8, amended. On a call that finds the memo empty, \<^verbatim>\<open>load_data\<close> returns the
  absent signal \<^verbatim>\<open>None\<close> (no frame and no exception) when the file does not exist,
  and, when the file exists and parses, a new frame whose rows are the rows of the file,
  each with \<open>year\<close>, \<open>month\<close> and \<open>date\<close> read off its timestamp; it memoises
  what it returns. A call that finds the memo filled returns the memoised result, the
  absent signal or a new frame with the memoised content, whatever the file system holds.
  Whenever \<^verbatim>\<open>load_data\<close> returns the absent signal, the page shows its title, its
  introduction and one error message, and no table: no aggregation is run.
\<close>

theorem load_data_memoised:
  "(c = None \<and> fs INPUT_FILE = None \<longrightarrow>
      load_data fs c h = Inr (None, Some None, h)) \<and>
   (\<forall>raw. c = None \<and> fs INPUT_FILE = Some (Csv raw) \<longrightarrow>
      (\<exists>h'. load_data fs c h = Inr (Some (fresh h), Some (Some (objs h' (fresh h))), h') \<and>
         rows (objs h' (fresh h)) =
           map (\<lambda>r. \<lparr>datetime = datetime_utc r,
                      year = ts_year (datetime_utc r),
                      month = ts_month (datetime_utc r),
                      date = (ts_year (datetime_utc r), ts_month (datetime_utc r),
                              ts_day (datetime_utc r)),
                      residual_load_mw_avg = csv_residual_load_mw_avg r,
                      day_ahead_price_eur_mwh = csv_day_ahead_price_eur_mwh r,
                      solar_mw_avg = csv_solar_mw_avg r\<rparr>) raw \<and>
         solar_revenue (objs h' (fresh h)) = None \<and>
         fresh h' = Suc (fresh h) \<and> (\<forall>p. p \<noteq> fresh h \<longrightarrow> objs h' p = objs h p))) \<and>
   (c = Some None \<longrightarrow> load_data fs c h = Inr (None, c, h)) \<and>
   (\<forall>f. c = Some (Some f) \<longrightarrow>
      (\<exists>h'. load_data fs c h = Inr (Some (fresh h), c, h') \<and> objs h' (fresh h) = f \<and>
         fresh h' = Suc (fresh h) \<and> (\<forall>p. p \<noteq> fresh h \<longrightarrow> objs h' p = objs h p))) \<and>
   (\<forall>c' h'. load_data fs c h = Inr (None, c', h') \<longrightarrow>
      main fs multiselect c h =
        ([Title ''Energy Charts Dashboard'',
          Markdown ''Analysis of German residual load, electricity prices, and solar capture rates.'',
          StError not_found_message], c'))"
proof (intro conjI allI impI)
  assume "c = None \<and> fs INPUT_FILE = None"
  then show "load_data fs c h = Inr (None, Some None, h)"
    by (simp add: load_data_def load_data_body_def)
next
  fix raw assume a: "c = None \<and> fs INPUT_FILE = Some (Csv raw)"
  let ?f = "\<lparr>rows = map derive raw, solar_revenue = None\<rparr>"
  let ?h = "snd (alloc h ?f)"
  have l: "load_data fs c h = Inr (Some (fresh h), Some (Some (objs ?h (fresh h))), ?h)"
    using a by (simp add: load_data_def load_data_body_def alloc_def Let_def)
  have r: "rows (objs ?h (fresh h)) =
           map (\<lambda>r. \<lparr>datetime = datetime_utc r,
                      year = ts_year (datetime_utc r),
                      month = ts_month (datetime_utc r),
                      date = (ts_year (datetime_utc r), ts_month (datetime_utc r),
                              ts_day (datetime_utc r)),
                      residual_load_mw_avg = csv_residual_load_mw_avg r,
                      day_ahead_price_eur_mwh = csv_day_ahead_price_eur_mwh r,
                      solar_mw_avg = csv_solar_mw_avg r\<rparr>) raw"
    by (simp add: alloc_def derive_def)
  have o: "solar_revenue (objs ?h (fresh h)) = None" "fresh ?h = Suc (fresh h)"
    "\<forall>p. p \<noteq> fresh h \<longrightarrow> objs ?h p = objs h p"
    by (simp_all add: alloc_def)
  from l r o show "\<exists>h'. load_data fs c h = Inr (Some (fresh h), Some (Some (objs h' (fresh h))), h') \<and>
         rows (objs h' (fresh h)) =
           map (\<lambda>r. \<lparr>datetime = datetime_utc r,
                      year = ts_year (datetime_utc r),
                      month = ts_month (datetime_utc r),
                      date = (ts_year (datetime_utc r), ts_month (datetime_utc r),
                              ts_day (datetime_utc r)),
                      residual_load_mw_avg = csv_residual_load_mw_avg r,
                      day_ahead_price_eur_mwh = csv_day_ahead_price_eur_mwh r,
                      solar_mw_avg = csv_solar_mw_avg r\<rparr>) raw \<and>
         solar_revenue (objs h' (fresh h)) = None \<and>
         fresh h' = Suc (fresh h) \<and> (\<forall>p. p \<noteq> fresh h \<longrightarrow> objs h' p = objs h p)"
    by (intro exI [of _ ?h] conjI)
next
  assume "c = Some None"
  then show "load_data fs c h = Inr (None, c, h)"
    by (simp add: load_data_def)
next
  fix f assume "c = Some (Some f)"
  then show "\<exists>h'. load_data fs c h = Inr (Some (fresh h), c, h') \<and> objs h' (fresh h) = f \<and>
         fresh h' = Suc (fresh h) \<and> (\<forall>p. p \<noteq> fresh h \<longrightarrow> objs h' p = objs h p)"
    by (simp add: load_data_def alloc_def Let_def)
next
  fix c' h' assume "load_data fs c h = Inr (None, c', h')"
  then show "main fs multiselect c h =
        ([Title ''Energy Charts Dashboard'',
          Markdown ''Analysis of German residual load, electricity prices, and solar capture rates.'',
          StError not_found_message], c')"
    by (simp add: main_def)
qed


theorem load_data_memoised_witness:
  "load_data Map.empty None empty_heap = Inr (None, Some None, empty_heap) \<and>
   main Map.empty id None empty_heap =
     ([Title ''Energy Charts Dashboard'',
       Markdown ''Analysis of German residual load, electricity prices, and solar capture rates.'',
       StError not_found_message], Some None) \<and>
   (\<exists>h'. load_data [INPUT_FILE \<mapsto> Csv ex_csv] None empty_heap =
            Inr (Some 0, Some (Some ex_loaded), h') \<and>
         rows (objs h' 0) =
           [\<lparr>datetime = \<lparr>ts_year = 2024, ts_month = 3, ts_day = 5, ts_hour = 7\<rparr>,
             year = 2024, month = 3, date = (2024, 3, 5),
             residual_load_mw_avg = 100, day_ahead_price_eur_mwh = 10, solar_mw_avg = 1\<rparr>]) \<and>
   load_data [INPUT_FILE \<mapsto> Csv ex_csv] (Some None) empty_heap =
     Inr (None, Some None, empty_heap) \<and>
   (\<exists>h'. load_data Map.empty (Some (Some ex_loaded)) empty_heap =
            Inr (Some 0, Some (Some ex_loaded), h') \<and> objs h' 0 = ex_loaded)"
proof -
  have f0: "fresh empty_heap = 0" by (simp add: empty_heap_def)
  note cold_absent =
    load_data_memoised [of None Map.empty empty_heap id, THEN conjunct1]
  note absent_page =
    load_data_memoised [of None Map.empty empty_heap id,
      THEN conjunct2, THEN conjunct2, THEN conjunct2, THEN conjunct2]
  note cold_file =
    load_data_memoised [of None "[INPUT_FILE \<mapsto> Csv ex_csv]" empty_heap id,
      THEN conjunct2, THEN conjunct1]
  note warm_absent =
    load_data_memoised [of "Some None" "[INPUT_FILE \<mapsto> Csv ex_csv]" empty_heap id,
      THEN conjunct2, THEN conjunct2, THEN conjunct1]
  note warm_frame =
    load_data_memoised [of "Some (Some ex_loaded)" Map.empty empty_heap id,
      THEN conjunct2, THEN conjunct2, THEN conjunct2, THEN conjunct1]
  have a: "load_data Map.empty None empty_heap = Inr (None, Some None, empty_heap)"
    using cold_absent by simp
  have b: "main Map.empty id None empty_heap =
     ([Title ''Energy Charts Dashboard'',
       Markdown ''Analysis of German residual load, electricity prices, and solar capture rates.'',
       StError not_found_message], Some None)"
    using absent_page a by blast
  from cold_file [rule_format, of ex_csv] obtain h'
    where l: "load_data [INPUT_FILE \<mapsto> Csv ex_csv] None empty_heap =
                Inr (Some (fresh empty_heap), Some (Some (objs h' (fresh empty_heap))), h')"
      and r: "rows (objs h' (fresh empty_heap)) =
           map (\<lambda>r. \<lparr>datetime = datetime_utc r,
                      year = ts_year (datetime_utc r),
                      month = ts_month (datetime_utc r),
                      date = (ts_year (datetime_utc r), ts_month (datetime_utc r),
                              ts_day (datetime_utc r)),
                      residual_load_mw_avg = csv_residual_load_mw_avg r,
                      day_ahead_price_eur_mwh = csv_day_ahead_price_eur_mwh r,
                      solar_mw_avg = csv_solar_mw_avg r\<rparr>) ex_csv"
      and n: "solar_revenue (objs h' (fresh empty_heap)) = None"
    by auto
  have rows: "rows (objs h' 0) =
           [\<lparr>datetime = \<lparr>ts_year = 2024, ts_month = 3, ts_day = 5, ts_hour = 7\<rparr>,
             year = 2024, month = 3, date = (2024, 3, 5),
             residual_load_mw_avg = 100, day_ahead_price_eur_mwh = 10, solar_mw_avg = 1\<rparr>]"
    using r unfolding f0 by (simp add: ex_csv_def hour_def)
  have "objs h' 0 = ex_loaded"
    using rows n unfolding f0 by (cases "objs h' 0") (simp add: ex_loaded_def)
  with l have c: "load_data [INPUT_FILE \<mapsto> Csv ex_csv] None empty_heap =
            Inr (Some 0, Some (Some ex_loaded), h')"
    by (simp add: f0)
  have d: "load_data [INPUT_FILE \<mapsto> Csv ex_csv] (Some None) empty_heap =
     Inr (None, Some None, empty_heap)"
    using warm_absent by simp
  from warm_frame [rule_format, of ex_loaded] obtain h2
    where "load_data Map.empty (Some (Some ex_loaded)) empty_heap =
             Inr (Some (fresh empty_heap), Some (Some ex_loaded), h2)"
      and "objs h2 (fresh empty_heap) = ex_loaded"
    by auto
  then have e: "\<exists>h'. load_data Map.empty (Some (Some ex_loaded)) empty_heap =
            Inr (Some 0, Some (Some ex_loaded), h') \<and> objs h' 0 = ex_loaded"
    by (simp add: f0)
  from c rows have c': "\<exists>h'. load_data [INPUT_FILE \<mapsto> Csv ex_csv] None empty_heap =
            Inr (Some 0, Some (Some ex_loaded), h') \<and>
         rows (objs h' 0) =
           [\<lparr>datetime = \<lparr>ts_year = 2024, ts_month = 3, ts_day = 5, ts_hour = 7\<rparr>,
             year = 2024, month = 3, date = (2024, 3, 5),
             residual_load_mw_avg = 100, day_ahead_price_eur_mwh = 10, solar_mw_avg = 1\<rparr>]"
    by blast
  show ?thesis
    by (intro conjI a b c' d e)
qed

end
